theory Spec2Isabelle
  imports Complex_Main
begin

section \<open>Values, errors and the pydantic models\<close>

text \<open>
  A Python \<^verbatim>\<open>float\<close>: a finite double, given by its value, an infinity or NaN.
\<close>

datatype pyfloat = Float real | PosInf | NegInf | NaN

text \<open>
  The agents exchange loosely typed data: whatever the JSON output parser returns
  (\<^verbatim>\<open>Dict[str, Any]\<close>, \<^verbatim>\<open>List[Dict[str, Any]]\<close>). A Python value that came out of a JSON
  parser is one of the seven shapes below: a number without fraction or exponent is an
  \<^verbatim>\<open>int\<close> of any size, every other number a \<^verbatim>\<open>float\<close>. A dict is kept as an association
  list that is read with \<open>map_of\<close>. Strings are \<open>string\<close>, one \<open>char\<close> per character, for the
  code points below 256.
\<close>

datatype json =
    JNull
  | JBool bool
  | JInt int
  | JFloat pyfloat
  | JStr string
  | JArr "json list"
  | JObj "(string \<times> json) list"

type_synonym jdict = "(string \<times> json) list"

text \<open>
  Exceptions are values: every \<^verbatim>\<open>raise\<close> of the source is an \<open>Inl\<close>. \<open>ExternalError\<close> is an
  exception of an external collaborator (a client of an integration, the chain).
\<close>

datatype error =
    TypeError
  | AttributeError
  | KeyError
  | ValidationError
  | ExternalError string

text \<open>\<^verbatim>\<open>d.get(k, default)\<close>; \<^verbatim>\<open>d.get(k)\<close> is \<open>dict_get d k JNull\<close>.\<close>

definition dict_get :: "jdict \<Rightarrow> string \<Rightarrow> json \<Rightarrow> json" where
  "dict_get d k dflt = (case map_of d k of None \<Rightarrow> dflt | Some v \<Rightarrow> v)"

text \<open>
  \<^verbatim>\<open>str.lower()\<close> on the code points below 256: the capital letters are A to Z (65 to 90)
  and the accented capitals 192 to 222 without the multiplication sign 215; each has its
  small letter 32 places on, and every other character is left as it is. Only the
  evaluations of the example runs unfold it: the general theorems hold for any case
  folding.
\<close>

definition lower_char :: "char \<Rightarrow> char" where
  "lower_char c =
     (let n = (of_char c :: nat) in
      if (65 \<le> n \<and> n \<le> 90) \<or> (192 \<le> n \<and> n \<le> 222 \<and> n \<noteq> 215)
      then char_of (n + 32) else c)"

definition lower :: "string \<Rightarrow> string" where
  "lower s = map lower_char s"

text \<open>
  \<^verbatim>\<open>x[:50].lower()\<close> for a value \<open>x\<close> of unknown type. Only a \<^verbatim>\<open>str\<close> has both the slice
  and \<^verbatim>\<open>lower\<close>: a list can be sliced but has no \<^verbatim>\<open>lower\<close>, the other shapes cannot be
  sliced.
\<close>

fun prefix_key :: "json \<Rightarrow> error + string" where
  "prefix_key (JStr s) = Inr (lower (take 50 s))"
| "prefix_key (JArr xs) = Inl AttributeError"
| "prefix_key j = Inl TypeError"

subsection \<open>Field validation of the pydantic models\<close>

text \<open>
  A \<^verbatim>\<open>str\<close> field takes a \<^verbatim>\<open>str\<close> only, an \<^verbatim>\<open>Optional[str]\<close> field also \<^verbatim>\<open>None\<close>.
  The validator of \<^verbatim>\<open>datetime\<close> belongs to the pydantic library; it is the parameter
  \<open>dt\<close>, which answers \<open>None\<close> where pydantic rejects the value.
\<close>

fun validate_str :: "json \<Rightarrow> error + string" where
  "validate_str (JStr s) = Inr s"
| "validate_str j = Inl ValidationError"

fun validate_opt_str :: "json \<Rightarrow> error + string option" where
  "validate_opt_str JNull = Inr None"
| "validate_opt_str (JStr s) = Inr (Some s)"
| "validate_opt_str j = Inl ValidationError"

fun validate_opt_datetime :: "(json \<Rightarrow> 'd option) \<Rightarrow> json \<Rightarrow> error + 'd option" where
  "validate_opt_datetime dt JNull = Inr None"
| "validate_opt_datetime dt j = (case dt j of None \<Rightarrow> Inl ValidationError | Some d \<Rightarrow> Inr (Some d))"

subsection \<open>models/brief.py\<close>

record 'd ActionItem =
  description :: string
  assignee :: "string option"
  due_date :: "'d option"
  status :: string
  source :: "string option"

record TalkingPoint =
  topic :: string
  "context" :: string
  priority :: string
  source :: "string option"

record RiskOpportunity =
  type :: string
  title :: string
  description :: string
  severity :: string
  recommended_action :: "string option"

subsection \<open>agents/insight\_extractor.py\<close>

record ExtractedInsight =
  type :: string
  content :: string
  source :: string
  source_date :: "string option"
  participants :: "string list"
  priority :: string
  status :: string
  confidence :: pyfloat

record InsightExtractionResult =
  action_items :: "ExtractedInsight list"
  commitments :: "ExtractedInsight list"
  decisions :: "ExtractedInsight list"
  concerns :: "ExtractedInsight list"
  opportunities :: "ExtractedInsight list"
  key_topics :: "string list"
  sentiment_summary :: string
  relationship_health :: string

section \<open>agents/orchestrator.py: the three merges\<close>

subsection \<open>\_merge\_action\_items\<close>

text \<open>
  \<^verbatim>\<open>ActionItem(description=item.get("description", ""), assignee=item.get("assignee"),
  due_date=item.get("due_date"), status=item.get("status", "open"), source=item.get("source"))\<close>.
  Pydantic reports all invalid fields in one \<^verbatim>\<open>ValidationError\<close>.
\<close>

definition draft_action_item :: "(json \<Rightarrow> 'd option) \<Rightarrow> jdict \<Rightarrow> error + 'd ActionItem" where
  "draft_action_item dt item =
     (case (validate_str (dict_get item ''description'' (JStr '''')),
            validate_opt_str (dict_get item ''assignee'' JNull),
            validate_opt_datetime dt (dict_get item ''due_date'' JNull),
            validate_str (dict_get item ''status'' (JStr ''open'')),
            validate_opt_str (dict_get item ''source'' JNull)) of
        (Inr d, Inr a, Inr due, Inr st, Inr src) \<Rightarrow>
          Inr \<lparr>ActionItem.description = d, assignee = a, due_date = due,
               status = st, source = src\<rparr>
      | _ \<Rightarrow> Inl ValidationError)"

text \<open>
  \<^verbatim>\<open>ActionItem(description=insight.content,
  assignee=insight.participants[0] if insight.participants else None,
  status=insight.status, source=insight.source)\<close>; \<^verbatim>\<open>due_date\<close> takes its default.
\<close>

definition insight_action_item :: "ExtractedInsight \<Rightarrow> 'd ActionItem" where
  "insight_action_item insight =
     \<lparr>ActionItem.description = content insight,
      assignee = (case participants insight of [] \<Rightarrow> None | p # _ \<Rightarrow> Some p),
      due_date = None,
      status = ExtractedInsight.status insight,
      source = Some (ExtractedInsight.source insight)\<rparr>"

text \<open>The first loop, over \<^verbatim>\<open>brief_items\<close>, with the locals \<^verbatim>\<open>items\<close> and \<^verbatim>\<open>seen\<close>.\<close>

fun merge_brief_items ::
  "(json \<Rightarrow> 'd option) \<Rightarrow> jdict list \<Rightarrow> 'd ActionItem list \<Rightarrow> string set
     \<Rightarrow> error + ('d ActionItem list \<times> string set)" where
  "merge_brief_items dt [] items seen = Inr (items, seen)"
| "merge_brief_items dt (item # rest) items seen =
     (case prefix_key (dict_get item ''description'' (JStr '''')) of
        Inl e \<Rightarrow> Inl e
      | Inr key \<Rightarrow>
          if key \<notin> seen then
            (case draft_action_item dt item of
               Inl e \<Rightarrow> Inl e
             | Inr a \<Rightarrow> merge_brief_items dt rest (items @ [a]) (insert key seen))
          else merge_brief_items dt rest items seen)"

text \<open>The second loop, over \<^verbatim>\<open>insight_items\<close>; nothing in it can raise.\<close>

fun merge_insight_items ::
  "ExtractedInsight list \<Rightarrow> 'd ActionItem list \<Rightarrow> string set \<Rightarrow> 'd ActionItem list" where
  "merge_insight_items [] items seen = items"
| "merge_insight_items (insight # rest) items seen =
     (let key = lower (take 50 (content insight)) in
      if key \<notin> seen then
        merge_insight_items rest (items @ [insight_action_item insight]) (insert key seen)
      else merge_insight_items rest items seen)"

definition merge_action_items ::
  "(json \<Rightarrow> 'd option) \<Rightarrow> jdict list \<Rightarrow> ExtractedInsight list \<Rightarrow> error + 'd ActionItem list" where
  "merge_action_items dt brief_items insight_items =
     (case merge_brief_items dt brief_items [] {} of
        Inl e \<Rightarrow> Inl e
      | Inr (items, seen) \<Rightarrow> Inr (take 10 (merge_insight_items insight_items items seen)))"

subsection \<open>\_enhance\_talking\_points\<close>

definition draft_talking_point :: "jdict \<Rightarrow> error + TalkingPoint" where
  "draft_talking_point point =
     (case (validate_str (dict_get point ''topic'' (JStr '''')),
            validate_str (dict_get point ''context'' (JStr '''')),
            validate_str (dict_get point ''priority'' (JStr ''medium'')),
            validate_opt_str (dict_get point ''source'' JNull)) of
        (Inr t, Inr c, Inr p, Inr src) \<Rightarrow>
          Inr \<lparr>topic = t, context = c, priority = p, source = src\<rparr>
      | _ \<Rightarrow> Inl ValidationError)"

definition concern_talking_point :: "ExtractedInsight \<Rightarrow> TalkingPoint" where
  "concern_talking_point concern =
     \<lparr>topic = ''Address concern: '' @ take 50 (content concern),
      context = content concern,
      priority = ''high'',
      source = Some (ExtractedInsight.source concern)\<rparr>"

definition opportunity_talking_point :: "ExtractedInsight \<Rightarrow> TalkingPoint" where
  "opportunity_talking_point opp =
     \<lparr>topic = ''Explore opportunity: '' @ take 50 (content opp),
      context = content opp,
      priority = ''medium'',
      source = Some (ExtractedInsight.source opp)\<rparr>"

fun append_points :: "jdict list \<Rightarrow> TalkingPoint list \<Rightarrow> error + TalkingPoint list" where
  "append_points [] enhanced = Inr enhanced"
| "append_points (point # rest) enhanced =
     (case draft_talking_point point of
        Inl e \<Rightarrow> Inl e
      | Inr t \<Rightarrow> append_points rest (enhanced @ [t]))"

fun append_concern_points :: "ExtractedInsight list \<Rightarrow> TalkingPoint list \<Rightarrow> TalkingPoint list" where
  "append_concern_points [] enhanced = enhanced"
| "append_concern_points (concern # rest) enhanced =
     append_concern_points rest (enhanced @ [concern_talking_point concern])"

fun append_opportunity_points ::
  "ExtractedInsight list \<Rightarrow> TalkingPoint list \<Rightarrow> TalkingPoint list" where
  "append_opportunity_points [] enhanced = enhanced"
| "append_opportunity_points (opp # rest) enhanced =
     append_opportunity_points rest (enhanced @ [opportunity_talking_point opp])"

definition enhance_talking_points ::
  "jdict list \<Rightarrow> InsightExtractionResult \<Rightarrow> error + TalkingPoint list" where
  "enhance_talking_points points insights =
     (case append_points points [] of
        Inl e \<Rightarrow> Inl e
      | Inr enhanced \<Rightarrow>
          Inr (take 8 (append_opportunity_points (take 2 (opportunities insights))
                         (append_concern_points (take 3 (concerns insights)) enhanced))))"

subsection \<open>\_merge\_risks\_opportunities\<close>

definition draft_risk_opportunity :: "jdict \<Rightarrow> error + RiskOpportunity" where
  "draft_risk_opportunity item =
     (case (validate_str (dict_get item ''type'' (JStr ''risk'')),
            validate_str (dict_get item ''title'' (JStr '''')),
            validate_str (dict_get item ''description'' (JStr '''')),
            validate_str (dict_get item ''severity'' (JStr ''medium'')),
            validate_opt_str (dict_get item ''recommended_action'' JNull)) of
        (Inr ty, Inr ti, Inr d, Inr sev, Inr ra) \<Rightarrow>
          Inr \<lparr>RiskOpportunity.type = ty, title = ti, description = d, severity = sev,
               recommended_action = ra\<rparr>
      | _ \<Rightarrow> Inl ValidationError)"

definition concern_risk :: "ExtractedInsight \<Rightarrow> RiskOpportunity" where
  "concern_risk concern =
     \<lparr>RiskOpportunity.type = ''risk'',
      title = take 50 (content concern),
      description = content concern,
      severity = ExtractedInsight.priority concern,
      recommended_action = None\<rparr>"

definition opportunity_record :: "ExtractedInsight \<Rightarrow> RiskOpportunity" where
  "opportunity_record opp =
     \<lparr>RiskOpportunity.type = ''opportunity'',
      title = take 50 (content opp),
      description = content opp,
      severity = ExtractedInsight.priority opp,
      recommended_action = None\<rparr>"

fun append_existing :: "jdict list \<Rightarrow> RiskOpportunity list \<Rightarrow> error + RiskOpportunity list" where
  "append_existing [] items = Inr items"
| "append_existing (item # rest) items =
     (case draft_risk_opportunity item of
        Inl e \<Rightarrow> Inl e
      | Inr r \<Rightarrow> append_existing rest (items @ [r]))"

fun append_concern_risks ::
  "ExtractedInsight list \<Rightarrow> RiskOpportunity list \<Rightarrow> RiskOpportunity list" where
  "append_concern_risks [] items = items"
| "append_concern_risks (concern # rest) items =
     append_concern_risks rest (items @ [concern_risk concern])"

fun append_opportunity_records ::
  "ExtractedInsight list \<Rightarrow> RiskOpportunity list \<Rightarrow> RiskOpportunity list" where
  "append_opportunity_records [] items = items"
| "append_opportunity_records (opp # rest) items =
     append_opportunity_records rest (items @ [opportunity_record opp])"

definition merge_risks_opportunities ::
  "jdict list \<Rightarrow> ExtractedInsight list \<Rightarrow> ExtractedInsight list
     \<Rightarrow> error + RiskOpportunity list" where
  "merge_risks_opportunities existing cs opps =
     (case append_existing existing [] of
        Inl e \<Rightarrow> Inl e
      | Inr items \<Rightarrow>
          Inr (take 6 (append_opportunity_records opps (append_concern_risks cs items))))"

section \<open>Validation of the agents' models\<close>

text \<open>
  Building a model from the keys of a dict validates it field by field. A field that is absent takes its
  default, or fails the validation when it has none; unknown keys are ignored. The
  validator of \<^verbatim>\<open>float\<close> takes a number as it is; what it does with a value that is not a
  \<^verbatim>\<open>float\<close> is the parameter \<open>fl\<close>, as \<open>dt\<close> above: pydantic turns an \<^verbatim>\<open>int\<close> into the nearest
  double or rejects it beyond the range of the doubles, and converts some strings.
\<close>

definition bind_err :: "error + 'a \<Rightarrow> ('a \<Rightarrow> error + 'b) \<Rightarrow> error + 'b" where
  "bind_err r f = (case r of Inl e \<Rightarrow> Inl e | Inr v \<Rightarrow> f v)"

definition required :: "jdict \<Rightarrow> string \<Rightarrow> (json \<Rightarrow> error + 'a) \<Rightarrow> error + 'a" where
  "required d k v = (case map_of d k of None \<Rightarrow> Inl ValidationError | Some j \<Rightarrow> v j)"

definition optional :: "jdict \<Rightarrow> string \<Rightarrow> 'a \<Rightarrow> (json \<Rightarrow> error + 'a) \<Rightarrow> error + 'a" where
  "optional d k dflt v = (case map_of d k of None \<Rightarrow> Inr dflt | Some j \<Rightarrow> v j)"

fun validate_float :: "(json \<Rightarrow> pyfloat option) \<Rightarrow> json \<Rightarrow> error + pyfloat" where
  "validate_float fl (JFloat x) = Inr x"
| "validate_float fl j = (case fl j of None \<Rightarrow> Inl ValidationError | Some r \<Rightarrow> Inr r)"

fun validate_dict :: "json \<Rightarrow> error + jdict" where
  "validate_dict (JObj d) = Inr d"
| "validate_dict j = Inl ValidationError"

text \<open>A list comprehension whose element expression can raise.\<close>

fun map_err :: "('a \<Rightarrow> error + 'b) \<Rightarrow> 'a list \<Rightarrow> error + 'b list" where
  "map_err f [] = Inr []"
| "map_err f (x # xs) =
     (case f x of
        Inl e \<Rightarrow> Inl e
      | Inr y \<Rightarrow> (case map_err f xs of Inl e \<Rightarrow> Inl e | Inr ys \<Rightarrow> Inr (y # ys)))"

fun validate_list :: "(json \<Rightarrow> error + 'a) \<Rightarrow> json \<Rightarrow> error + 'a list" where
  "validate_list v (JArr xs) = map_err v xs"
| "validate_list v j = Inl ValidationError"

subsection \<open>ExtractedInsight and InsightExtractionResult\<close>

text \<open>The default \<^verbatim>\<open>0.8\<close> of \<^verbatim>\<open>confidence\<close>: the double nearest to 8/10.\<close>

definition float_0_8 :: pyfloat where
  "float_0_8 = Float (3602879701896397 / 4503599627370496)"

fun validate_ExtractedInsight :: "(json \<Rightarrow> pyfloat option) \<Rightarrow> json \<Rightarrow> error + ExtractedInsight" where
  "validate_ExtractedInsight fl (JObj d) =
     bind_err (required d ''type'' validate_str) (\<lambda>ty.
     bind_err (required d ''content'' validate_str) (\<lambda>c.
     bind_err (required d ''source'' validate_str) (\<lambda>src.
     bind_err (optional d ''source_date'' None validate_opt_str) (\<lambda>sd.
     bind_err (optional d ''participants'' [] (validate_list validate_str)) (\<lambda>ps.
     bind_err (optional d ''priority'' ''medium'' validate_str) (\<lambda>pr.
     bind_err (optional d ''status'' ''open'' validate_str) (\<lambda>st.
     bind_err (optional d ''confidence'' float_0_8 (validate_float fl)) (\<lambda>cf.
       Inr \<lparr>ExtractedInsight.type = ty, content = c, source = src, source_date = sd,
            participants = ps, priority = pr, status = st, confidence = cf\<rparr>))))))))"
| "validate_ExtractedInsight fl j = Inl ValidationError"

definition validate_InsightExtractionResult ::
  "(json \<Rightarrow> pyfloat option) \<Rightarrow> jdict \<Rightarrow> error + InsightExtractionResult" where
  "validate_InsightExtractionResult fl d =
     bind_err (optional d ''action_items'' [] (validate_list (validate_ExtractedInsight fl))) (\<lambda>ai.
     bind_err (optional d ''commitments'' [] (validate_list (validate_ExtractedInsight fl))) (\<lambda>cm.
     bind_err (optional d ''decisions'' [] (validate_list (validate_ExtractedInsight fl))) (\<lambda>de.
     bind_err (optional d ''concerns'' [] (validate_list (validate_ExtractedInsight fl))) (\<lambda>cs.
     bind_err (optional d ''opportunities'' [] (validate_list (validate_ExtractedInsight fl))) (\<lambda>os.
     bind_err (optional d ''key_topics'' [] (validate_list validate_str)) (\<lambda>kt.
     bind_err (optional d ''sentiment_summary'' ''neutral'' validate_str) (\<lambda>ss.
     bind_err (optional d ''relationship_health'' ''healthy'' validate_str) (\<lambda>rh.
       Inr \<lparr>action_items = ai, commitments = cm, decisions = de, concerns = cs,
            opportunities = os, key_topics = kt, sentiment_summary = ss,
            relationship_health = rh\<rparr>))))))))"

subsection \<open>GatheredContext (agents/context\_gatherer.py)\<close>

record GatheredContext =
  email_threads :: "jdict list"
  calendar_events :: "jdict list"
  crm_data :: jdict
  past_interactions :: "jdict list"
  participant_profiles :: "jdict list"
  data_quality_score :: pyfloat
  sources_accessed :: "string list"

definition validate_GatheredContext ::
  "(json \<Rightarrow> pyfloat option) \<Rightarrow> jdict \<Rightarrow> error + GatheredContext" where
  "validate_GatheredContext fl d =
     bind_err (optional d ''email_threads'' [] (validate_list validate_dict)) (\<lambda>et.
     bind_err (optional d ''calendar_events'' [] (validate_list validate_dict)) (\<lambda>ce.
     bind_err (optional d ''crm_data'' [] validate_dict) (\<lambda>crm.
     bind_err (optional d ''past_interactions'' [] (validate_list validate_dict)) (\<lambda>pi.
     bind_err (optional d ''participant_profiles'' [] (validate_list validate_dict)) (\<lambda>pp.
     bind_err (optional d ''data_quality_score'' (Float 0) (validate_float fl)) (\<lambda>q.
     bind_err (optional d ''sources_accessed'' [] (validate_list validate_str)) (\<lambda>sa.
       Inr \<lparr>email_threads = et, calendar_events = ce, crm_data = crm,
            past_interactions = pi, participant_profiles = pp,
            data_quality_score = q, sources_accessed = sa\<rparr>)))))))"

subsection \<open>GeneratedBrief (agents/brief\_generator.py)\<close>

record GeneratedBrief =
  meeting_objective :: string
  executive_summary :: string
  participant_profiles :: "jdict list"
  relationship_timeline :: "jdict list"
  open_action_items :: "jdict list"
  talking_points :: "jdict list"
  risks_opportunities :: "jdict list"
  email_summary :: "string option"
  previous_meetings_summary :: "string option"

definition validate_GeneratedBrief :: "jdict \<Rightarrow> error + GeneratedBrief" where
  "validate_GeneratedBrief d =
     bind_err (required d ''meeting_objective'' validate_str) (\<lambda>mo.
     bind_err (required d ''executive_summary'' validate_str) (\<lambda>es.
     bind_err (required d ''participant_profiles'' (validate_list validate_dict)) (\<lambda>pp.
     bind_err (required d ''relationship_timeline'' (validate_list validate_dict)) (\<lambda>rt.
     bind_err (required d ''open_action_items'' (validate_list validate_dict)) (\<lambda>ai.
     bind_err (required d ''talking_points'' (validate_list validate_dict)) (\<lambda>tp.
     bind_err (required d ''risks_opportunities'' (validate_list validate_dict)) (\<lambda>ro.
     bind_err (optional d ''email_summary'' None validate_opt_str) (\<lambda>em.
     bind_err (optional d ''previous_meetings_summary'' None validate_opt_str) (\<lambda>pm.
       Inr \<lparr>meeting_objective = mo, executive_summary = es, participant_profiles = pp,
            relationship_timeline = rt, open_action_items = ai, talking_points = tp,
            risks_opportunities = ro, email_summary = em,
            previous_meetings_summary = pm\<rparr>)))))))))"

subsection \<open>ParticipantProfile and Brief (models/brief.py)\<close>

record ParticipantProfile =
  email :: string
  name :: "string option"
  title :: "string option"
  company :: "string option"
  linkedin_url :: "string option"
  recent_interactions :: "string list"
  key_topics :: "string list"
  sentiment :: "string option"

definition validate_ParticipantProfile :: "jdict \<Rightarrow> error + ParticipantProfile" where
  "validate_ParticipantProfile d =
     bind_err (required d ''email'' validate_str) (\<lambda>em.
     bind_err (optional d ''name'' None validate_opt_str) (\<lambda>nm.
     bind_err (optional d ''title'' None validate_opt_str) (\<lambda>ti.
     bind_err (optional d ''company'' None validate_opt_str) (\<lambda>co.
     bind_err (optional d ''linkedin_url'' None validate_opt_str) (\<lambda>li.
     bind_err (optional d ''recent_interactions'' [] (validate_list validate_str)) (\<lambda>ri.
     bind_err (optional d ''key_topics'' [] (validate_list validate_str)) (\<lambda>kt.
     bind_err (optional d ''sentiment'' None validate_opt_str) (\<lambda>se.
       Inr \<lparr>email = em, name = nm, ParticipantProfile.title = ti, company = co,
            linkedin_url = li, recent_interactions = ri,
            ParticipantProfile.key_topics = kt, sentiment = se\<rparr>))))))))"

record 'd Brief =
  id :: string
  meeting_id :: string
  title :: string
  meeting_objective :: "string option"
  executive_summary :: string
  participant_profiles :: "ParticipantProfile list"
  relationship_timeline :: "jdict list"
  open_action_items :: "'d ActionItem list"
  talking_points :: "TalkingPoint list"
  risks_opportunities :: "RiskOpportunity list"
  email_context :: "string option"
  crm_context :: "string option"
  previous_meetings_summary :: "string option"
  generated_at :: 'd

section \<open>agents/context\_gatherer.py\<close>

text \<open>
  The integrations handed to the agent: per source an \<^verbatim>\<open>enabled\<close> flag and a client.
  A client call is an external collaborator: it returns records or raises. The date
  arithmetic on \<^verbatim>\<open>lookback_days\<close> that precedes a call is counted to the call.
\<close>

record 'c integration =
  enabled :: bool
  client :: 'c

record crm_client =
  get_contact_by_email :: "string \<Rightarrow> error + json"
  get_contact_deals :: "json \<Rightarrow> error + json list"
  get_account :: "json \<Rightarrow> error + json"

record mcp_integrations =
  mcp_email :: "(string \<Rightarrow> int \<Rightarrow> error + jdict list) integration option"
  mcp_calendar :: "(int \<Rightarrow> error + jdict list) integration option"
  mcp_crm :: "crm_client integration option"

text \<open>Truth value of a Python value, iteration over it, \<^verbatim>\<open>x[:n]\<close> and \<^verbatim>\<open>x[k]\<close>.\<close>

fun truthy :: "json \<Rightarrow> bool" where
  "truthy JNull = False"
| "truthy (JBool b) = b"
| "truthy (JInt n) = (n \<noteq> 0)"
| "truthy (JFloat x) = (x \<noteq> Float 0)"
| "truthy (JStr s) = (s \<noteq> [])"
| "truthy (JArr xs) = (xs \<noteq> [])"
| "truthy (JObj d) = (d \<noteq> [])"

fun py_iter :: "json \<Rightarrow> error + json list" where
  "py_iter (JArr xs) = Inr xs"
| "py_iter (JStr s) = Inr (map (\<lambda>c. JStr [c]) s)"
| "py_iter (JObj d) = Inr (map (\<lambda>kv. JStr (fst kv)) d)"
| "py_iter j = Inl TypeError"

fun py_slice :: "nat \<Rightarrow> json \<Rightarrow> error + json" where
  "py_slice n (JStr s) = Inr (JStr (take n s))"
| "py_slice n (JArr xs) = Inr (JArr (take n xs))"
| "py_slice n j = Inl TypeError"

fun subscript :: "json \<Rightarrow> string \<Rightarrow> error + json" where
  "subscript (JObj d) k = (case map_of d k of None \<Rightarrow> Inl KeyError | Some v \<Rightarrow> Inr v)"
| "subscript j k = Inl TypeError"

subsection \<open>gather\_email\_context\<close>

text \<open>
  The \<^verbatim>\<open>try\<close> encloses the whole loop: an exception of one call ends the loop and
  leaves \<^verbatim>\<open>email_threads\<close> as the earlier calls filled it.
\<close>

fun search_all ::
  "(string \<Rightarrow> int \<Rightarrow> error + jdict list) \<Rightarrow> int \<Rightarrow> string list \<Rightarrow> jdict list \<Rightarrow> jdict list" where
  "search_all search_emails days [] email_threads' = email_threads'"
| "search_all search_emails days (participant # rest) email_threads' =
     (case search_emails (''from:'' @ participant @ '' OR to:'' @ participant) days of
        Inl e \<Rightarrow> email_threads'
      | Inr threads \<Rightarrow> search_all search_emails days rest (email_threads' @ threads))"

definition gather_email_context :: "mcp_integrations \<Rightarrow> string list \<Rightarrow> int \<Rightarrow> jdict list" where
  "gather_email_context m participants' lookback_days =
     (case mcp_email m of
        None \<Rightarrow> []
      | Some i \<Rightarrow> if enabled i then search_all (client i) lookback_days participants' [] else [])"

subsection \<open>gather\_calendar\_context\<close>

text \<open>\<^verbatim>\<open>a.get("email", "").lower()\<close> for one attendee \<open>a\<close>.\<close>

fun attendee_email :: "json \<Rightarrow> error + string" where
  "attendee_email (JObj a) =
     (case dict_get a ''email'' (JStr []) of
        JStr s \<Rightarrow> Inr (lower s)
      | _ \<Rightarrow> Inl AttributeError)"
| "attendee_email j = Inl AttributeError"

definition event_attendees :: "jdict \<Rightarrow> error + string list" where
  "event_attendees event =
     bind_err (py_iter (dict_get event ''attendees'' (JArr []))) (map_err attendee_email)"

fun filter_events :: "string list \<Rightarrow> jdict list \<Rightarrow> jdict list \<Rightarrow> jdict list" where
  "filter_events participants' [] events = events"
| "filter_events participants' (event # rest) events =
     (case event_attendees event of
        Inl e \<Rightarrow> events
      | Inr emails \<Rightarrow>
          if \<exists>p \<in> set participants'. lower p \<in> set emails
          then filter_events participants' rest (events @ [event])
          else filter_events participants' rest events)"

definition gather_calendar_context :: "mcp_integrations \<Rightarrow> string list \<Rightarrow> int \<Rightarrow> jdict list" where
  "gather_calendar_context m participants' lookback_days =
     (case mcp_calendar m of
        None \<Rightarrow> []
      | Some i \<Rightarrow>
          if enabled i then
            (case client i lookback_days of
               Inl e \<Rightarrow> []
             | Inr calendar_events' \<Rightarrow> filter_events participants' calendar_events' [])
          else [])"

subsection \<open>gather\_crm\_context\<close>

text \<open>
  The \<^verbatim>\<open>try\<close> encloses the loop here too. \<^verbatim>\<open>contact["id"]\<close> raises on a contact without
  that key; once it has succeeded the contact is a dict, and \<^verbatim>\<open>contact.get("account_id")\<close>
  is \<^verbatim>\<open>None\<close>, hence false, exactly when the subscript would raise.
\<close>

fun crm_loop ::
  "crm_client \<Rightarrow> string list \<Rightarrow> json list \<times> json list \<times> json list
     \<Rightarrow> json list \<times> json list \<times> json list" where
  "crm_loop c [] st = st"
| "crm_loop c (participant # rest) (contacts, deals, accounts) =
     (case get_contact_by_email c participant of
        Inl e \<Rightarrow> (contacts, deals, accounts)
      | Inr contact \<Rightarrow>
          if truthy contact then
            (case subscript contact ''id'' of
               Inl e \<Rightarrow> (contacts @ [contact], deals, accounts)
             | Inr cid \<Rightarrow>
                 (case get_contact_deals c cid of
                    Inl e \<Rightarrow> (contacts @ [contact], deals, accounts)
                  | Inr ds \<Rightarrow>
                      (case subscript contact ''account_id'' of
                         Inl e \<Rightarrow> crm_loop c rest (contacts @ [contact], deals @ ds, accounts)
                       | Inr aid \<Rightarrow>
                           if truthy aid then
                             (case get_account c aid of
                                Inl e \<Rightarrow> (contacts @ [contact], deals @ ds, accounts)
                              | Inr account \<Rightarrow>
                                  crm_loop c rest
                                    (contacts @ [contact], deals @ ds,
                                     if truthy account then accounts @ [account] else accounts))
                           else crm_loop c rest (contacts @ [contact], deals @ ds, accounts))))
          else crm_loop c rest (contacts, deals, accounts))"

definition crm_dict :: "json list \<times> json list \<times> json list \<Rightarrow> jdict" where
  "crm_dict st =
     (case st of (contacts, deals, accounts) \<Rightarrow>
        [(''contacts'', JArr contacts), (''deals'', JArr deals), (''accounts'', JArr accounts)])"

definition gather_crm_context :: "mcp_integrations \<Rightarrow> string list \<Rightarrow> jdict" where
  "gather_crm_context m participants' =
     (case mcp_crm m of
        None \<Rightarrow> crm_dict ([], [], [])
      | Some i \<Rightarrow>
          if enabled i then crm_dict (crm_loop (client i) participants' ([], [], []))
          else crm_dict ([], [], []))"

subsection \<open>gather\<close>

text \<open>
  \<open>chain_result\<close> is what building the prompt input and awaiting \<^verbatim>\<open>chain.ainvoke\<close>
  came to in this run: an exception, or the value the JSON parser returned. The
  arguments of \<^verbatim>\<open>gather\<close> that only reach the prompt (title, date, description) are left
  out. A dict gets the key \<^verbatim>\<open>sources_accessed\<close> overwritten and is validated; any other
  value has no attribute to assign to.
\<close>

definition gather ::
  "mcp_integrations \<Rightarrow> (json \<Rightarrow> pyfloat option) \<Rightarrow> error + json \<Rightarrow> string list \<Rightarrow> int
     \<Rightarrow> bool \<Rightarrow> bool \<Rightarrow> bool \<Rightarrow> error + GatheredContext" where
  "gather m fl chain_result participants' lookback_days include_email include_crm include_calendar =
     (let email_data =
            (if include_email then gather_email_context m participants' lookback_days else []);
          sources1 = (if include_email \<and> email_data \<noteq> [] then [''email''] else []);
          calendar_data =
            (if include_calendar then gather_calendar_context m participants' lookback_days else []);
          sources2 =
            sources1 @ (if include_calendar \<and> calendar_data \<noteq> [] then [''calendar''] else []);
          crm = (if include_crm then gather_crm_context m participants' else []);
          sources3 =
            sources2 @ (if include_crm \<and> truthy (dict_get crm ''contacts'' JNull)
                        then [''crm''] else [])
      in case chain_result of
           Inl e \<Rightarrow> Inl e
         | Inr (JObj result) \<Rightarrow>
             validate_GatheredContext fl
               ((''sources_accessed'', JArr (map JStr sources3)) # result)
         | Inr _ \<Rightarrow> Inl AttributeError)"

section \<open>agents/insight\_extractor.py and agents/brief\_generator.py\<close>

text \<open>
  Both agents end with \<^verbatim>\<open>if isinstance(result, dict):\<close> return the validated model, followed
  by \<^verbatim>\<open>return result\<close>: a parsed value that is not a dict is handed back as it is.
\<close>

datatype 'a parsed = Model 'a | Raw json

text \<open>
  \<^verbatim>\<open>InsightExtractorAgent.extract\<close> (here \<open>extract_insights\<close>, as \<open>extract\<close> is a
  reserved word) formats every thread and note before it calls the chain; of that only
  the slices \<^verbatim>\<open>thread.get('body', '')[:800]\<close> and \<^verbatim>\<open>note.get('notes', '')[:1000]\<close> can
  raise. The text itself only reaches the prompt.
\<close>

definition check_slice :: "string \<Rightarrow> nat \<Rightarrow> jdict \<Rightarrow> error + json" where
  "check_slice k n d = py_slice n (dict_get d k (JStr []))"

definition extract_insights ::
  "(json \<Rightarrow> pyfloat option) \<Rightarrow> jdict list \<Rightarrow> jdict list \<Rightarrow> error + json
     \<Rightarrow> error + InsightExtractionResult parsed" where
  "extract_insights fl email_threads' meeting_notes chain_result =
     bind_err (map_err (check_slice ''body'' 800) (take 15 email_threads')) (\<lambda>_.
     bind_err (map_err (check_slice ''notes'' 1000) (take 10 meeting_notes)) (\<lambda>_.
       case chain_result of
         Inl e \<Rightarrow> Inl e
       | Inr (JObj result) \<Rightarrow>
           bind_err (validate_InsightExtractionResult fl result) (\<lambda>r. Inr (Model r))
       | Inr j \<Rightarrow> Inr (Raw j)))"

definition generate :: "error + json \<Rightarrow> error + GeneratedBrief parsed" where
  "generate chain_result =
     (case chain_result of
        Inl e \<Rightarrow> Inl e
      | Inr (JObj result) \<Rightarrow> bind_err (validate_GeneratedBrief result) (\<lambda>g. Inr (Model g))
      | Inr j \<Rightarrow> Inr (Raw j))"

section \<open>agents/orchestrator.py: generate\_brief\<close>

text \<open>Reading an attribute of what an agent returned.\<close>

fun attr :: "'a parsed \<Rightarrow> error + 'a" where
  "attr (Model m) = Inr m"
| "attr (Raw j) = Inl AttributeError"

text \<open>The dict built per calendar event for \<^verbatim>\<open>meeting_notes\<close>.\<close>

fun attendee_get_email :: "json \<Rightarrow> error + json" where
  "attendee_get_email (JObj a) = Inr (dict_get a ''email'' JNull)"
| "attendee_get_email j = Inl AttributeError"

definition meeting_note :: "jdict \<Rightarrow> error + jdict" where
  "meeting_note event =
     (case dict_get event ''start'' (JObj []) of
        JObj start \<Rightarrow>
          bind_err (py_iter (dict_get event ''attendees'' (JArr []))) (\<lambda>as.
          bind_err (map_err attendee_get_email as) (\<lambda>emails.
            Inr [(''date'', dict_get start ''dateTime'' JNull),
                 (''title'', dict_get event ''summary'' (JStr [])),
                 (''notes'', dict_get event ''description'' (JStr [])),
                 (''attendees'', JArr emails)]))
      | _ \<Rightarrow> Inl AttributeError)"

subsection \<open>\_format\_crm\_context\<close>

text \<open>
  An f-string applies \<^verbatim>\<open>str\<close> to each value: a string stays as it is, the text of any
  other value is the parameter \<open>str\<close>.
\<close>

definition fmt :: "(json \<Rightarrow> string) \<Rightarrow> json \<Rightarrow> string" where
  "fmt str j = (case j of JStr s \<Rightarrow> s | _ \<Rightarrow> str j)"

fun contact_line :: "(json \<Rightarrow> string) \<Rightarrow> json \<Rightarrow> error + string" where
  "contact_line str (JObj contact) =
     Inr (''- '' @ fmt str (dict_get contact ''name'' (JStr ''Unknown'')) @ '': ''
          @ fmt str (dict_get contact ''title'' (JStr ''N/A'')) @ '' at ''
          @ fmt str (dict_get contact ''company'' (JStr ''N/A'')))"
| "contact_line str j = Inl AttributeError"

fun deal_line :: "(json \<Rightarrow> string) \<Rightarrow> json \<Rightarrow> error + string" where
  "deal_line str (JObj deal) =
     Inr (''- Deal: '' @ fmt str (dict_get deal ''name'' (JStr ''Unknown'')) @ '' - ''
          @ ''Stage: '' @ fmt str (dict_get deal ''stage'' (JStr ''N/A'')) @ '', Value: ''
          @ fmt str (dict_get deal ''value'' (JStr ''N/A'')))"
| "deal_line str j = Inl AttributeError"

fun join_lines :: "string list \<Rightarrow> string" where
  "join_lines [] = []"
| "join_lines [l] = l"
| "join_lines (l # ls) = l @ [CHR 0x0A] @ join_lines ls"

definition format_crm_context :: "(json \<Rightarrow> string) \<Rightarrow> jdict \<Rightarrow> error + string option" where
  "format_crm_context str crm =
     (if crm = [] \<or> \<not> truthy (dict_get crm ''contacts'' JNull) then Inr None
      else
        bind_err (py_slice 3 (dict_get crm ''contacts'' (JArr []))) (\<lambda>cs.
        bind_err (py_iter cs) (\<lambda>contacts.
        bind_err (map_err (contact_line str) contacts) (\<lambda>parts1.
        bind_err (py_slice 3 (dict_get crm ''deals'' (JArr []))) (\<lambda>ds.
        bind_err (py_iter ds) (\<lambda>deals.
        bind_err (map_err (deal_line str) deals) (\<lambda>parts2.
          Inr (if parts1 @ parts2 = [] then None
               else Some (join_lines (parts1 @ parts2))))))))))"

subsection \<open>The pipeline\<close>

text \<open>
  Everything one run reads from outside: the integrations, the library validators, what
  the three chain calls came to, the two readings of \<^verbatim>\<open>time.time()\<close>, the fresh uuid and
  \<^verbatim>\<open>datetime.utcnow()\<close>.
\<close>

record 'd world =
  mcp :: mcp_integrations
  datetime_validator :: "json \<Rightarrow> 'd option"
  float_validator :: "json \<Rightarrow> pyfloat option"
  py_str :: "json \<Rightarrow> string"
  gather_chain :: "error + json"
  extract_chain :: "error + json"
  generate_chain :: "error + json"
  time_start :: real
  time_end :: real
  uuid4 :: string
  utcnow :: 'd

text \<open>
  Steps 2 to 4 and the construction of the \<^verbatim>\<open>Brief\<close>, from the gathered context on. The
  locals \<^verbatim>\<open>data_sources\<close> and \<^verbatim>\<open>generation_time\<close> are computed as in the source; no later
  statement reads them.
\<close>

definition brief_from_context ::
  "'d world \<Rightarrow> string \<Rightarrow> string \<Rightarrow> GatheredContext \<Rightarrow> error + 'd Brief" where
  "brief_from_context w meeting_id' meeting_title ctx =
     (let data_sources = [] @ sources_accessed ctx in
      bind_err (map_err meeting_note (calendar_events ctx)) (\<lambda>meeting_notes.
      bind_err (extract_insights (float_validator w) (email_threads ctx) meeting_notes (extract_chain w))
        (\<lambda>insights.
      bind_err (generate (generate_chain w)) (\<lambda>generated.
      bind_err (attr generated) (\<lambda>gen.
      bind_err (attr insights) (\<lambda>ins.
      bind_err (merge_action_items (datetime_validator w)
                  (GeneratedBrief.open_action_items gen) (action_items ins)) (\<lambda>items.
      bind_err (enhance_talking_points (GeneratedBrief.talking_points gen) ins) (\<lambda>points.
      bind_err (merge_risks_opportunities (GeneratedBrief.risks_opportunities gen)
                  (concerns ins) (opportunities ins)) (\<lambda>risks.
      let generation_time = time_end w - time_start w in
      bind_err (map_err validate_ParticipantProfile (GeneratedBrief.participant_profiles gen))
        (\<lambda>profiles.
      bind_err (format_crm_context (py_str w) (crm_data ctx)) (\<lambda>crm.
        Inr \<lparr>id = uuid4 w,
             meeting_id = meeting_id',
             title = ''Brief: '' @ meeting_title,
             meeting_objective = Some (GeneratedBrief.meeting_objective gen),
             executive_summary = GeneratedBrief.executive_summary gen,
             participant_profiles = profiles,
             relationship_timeline = GeneratedBrief.relationship_timeline gen,
             open_action_items = items,
             talking_points = points,
             risks_opportunities = risks,
             email_context = email_summary gen,
             crm_context = crm,
             previous_meetings_summary = GeneratedBrief.previous_meetings_summary gen,
             generated_at = utcnow w\<rparr>)))))))))))"

definition generate_brief ::
  "'d world \<Rightarrow> string \<Rightarrow> string \<Rightarrow> string list \<Rightarrow> bool \<Rightarrow> bool \<Rightarrow> bool \<Rightarrow> int
     \<Rightarrow> error + 'd Brief" where
  "generate_brief w meeting_id' meeting_title participants'
       include_email include_crm include_calendar lookback_days =
     bind_err (gather (mcp w) (float_validator w) (gather_chain w) participants' lookback_days
                 include_email include_crm include_calendar)
       (brief_from_context w meeting_id' meeting_title)"

section \<open>Reference definitions for the claims\<close>

text \<open>
  The dedup key of the specification: the case-folded first 50 characters of a text, for
  an action item of its description, for a talking point of its topic.
\<close>

definition dedup_key :: "string \<Rightarrow> string" where
  "dedup_key s = lower (take 50 s)"

definition action_key :: "'d ActionItem \<Rightarrow> string" where
  "action_key a = dedup_key (ActionItem.description a)"

definition tp_key :: "TalkingPoint \<Rightarrow> string" where
  "tp_key t = dedup_key (topic t)"

text \<open>
  The action-item merge as the specification words it, over typed action items: one walk
  over the candidates that inserts an item whose key is unseen and records the key; the
  candidates are the draft items followed by one item per extracted insight; the first
  10 accumulated items are kept.
\<close>

definition spec_insert ::
  "('a \<Rightarrow> string) \<Rightarrow> 'a \<Rightarrow> 'a list \<times> string set \<Rightarrow> 'a list \<times> string set" where
  "spec_insert key x st =
     (if key x \<in> snd st then st else (fst st @ [x], insert (key x) (snd st)))"

definition spec_insight_item :: "ExtractedInsight \<Rightarrow> 'd ActionItem" where
  "spec_insight_item i =
     \<lparr>ActionItem.description = content i,
      assignee = (if participants i = [] then None else Some (hd (participants i))),
      due_date = None,
      status = ExtractedInsight.status i,
      source = Some (ExtractedInsight.source i)\<rparr>"

definition spec_merge_action_items ::
  "'d ActionItem list \<Rightarrow> ExtractedInsight list \<Rightarrow> 'd ActionItem list" where
  "spec_merge_action_items drafts insights =
     take 10 (fst (fold (spec_insert action_key)
                     (drafts @ map spec_insight_item insights) ([], {})))"

text \<open>
  A draft record as the specification reads it, written without the validators of the
  code: each field is the text under its key, or the default when the key is absent; an
  optional field may be absent, null or a text. A record is well formed when every key
  that is present holds a value of its field's type.
\<close>

definition text_field :: "jdict \<Rightarrow> string \<Rightarrow> string \<Rightarrow> string" where
  "text_field d k dflt = (case map_of d k of Some (JStr s) \<Rightarrow> s | _ \<Rightarrow> dflt)"

definition opt_text_field :: "jdict \<Rightarrow> string \<Rightarrow> string option" where
  "opt_text_field d k = (case map_of d k of Some (JStr s) \<Rightarrow> Some s | _ \<Rightarrow> None)"

definition is_text :: "jdict \<Rightarrow> string \<Rightarrow> bool" where
  "is_text d k = (case map_of d k of None \<Rightarrow> True | Some (JStr s) \<Rightarrow> True | Some _ \<Rightarrow> False)"

definition is_opt_text :: "jdict \<Rightarrow> string \<Rightarrow> bool" where
  "is_opt_text d k =
     (case map_of d k of
        None \<Rightarrow> True | Some JNull \<Rightarrow> True | Some (JStr s) \<Rightarrow> True | Some _ \<Rightarrow> False)"

definition spec_draft_action :: "(json \<Rightarrow> 'd option) \<Rightarrow> jdict \<Rightarrow> 'd ActionItem" where
  "spec_draft_action dt d =
     \<lparr>ActionItem.description = text_field d ''description'' '''',
      assignee = opt_text_field d ''assignee'',
      due_date = (case map_of d ''due_date'' of
                    None \<Rightarrow> None | Some JNull \<Rightarrow> None | Some j \<Rightarrow> dt j),
      status = text_field d ''status'' ''open'',
      source = opt_text_field d ''source''\<rparr>"

definition well_formed_action :: "(json \<Rightarrow> 'd option) \<Rightarrow> jdict \<Rightarrow> bool" where
  "well_formed_action dt d \<longleftrightarrow>
     is_text d ''description'' \<and> is_opt_text d ''assignee'' \<and>
     (case map_of d ''due_date'' of
        None \<Rightarrow> True | Some JNull \<Rightarrow> True | Some j \<Rightarrow> dt j \<noteq> None) \<and>
     is_text d ''status'' \<and> is_opt_text d ''source''"

definition draft_key :: "jdict \<Rightarrow> string" where
  "draft_key d = dedup_key (text_field d ''description'' '''')"

definition spec_draft_point :: "jdict \<Rightarrow> TalkingPoint" where
  "spec_draft_point d =
     \<lparr>topic = text_field d ''topic'' '''',
      context = text_field d ''context'' '''',
      priority = text_field d ''priority'' ''medium'',
      source = opt_text_field d ''source''\<rparr>"

definition well_formed_point :: "jdict \<Rightarrow> bool" where
  "well_formed_point d \<longleftrightarrow>
     is_text d ''topic'' \<and> is_text d ''context'' \<and> is_text d ''priority''
     \<and> is_opt_text d ''source''"

definition spec_draft_risk :: "jdict \<Rightarrow> RiskOpportunity" where
  "spec_draft_risk d =
     \<lparr>RiskOpportunity.type = text_field d ''type'' ''risk'',
      title = text_field d ''title'' '''',
      description = text_field d ''description'' '''',
      severity = text_field d ''severity'' ''medium'',
      recommended_action = opt_text_field d ''recommended_action''\<rparr>"

definition well_formed_risk :: "jdict \<Rightarrow> bool" where
  "well_formed_risk d \<longleftrightarrow>
     is_text d ''type'' \<and> is_text d ''title'' \<and> is_text d ''description''
     \<and> is_text d ''severity'' \<and> is_opt_text d ''recommended_action''"

text \<open>
  The records derived from an insight, as the specification describes them: a talking
  point that addresses a concern has priority high, one that explores an opportunity
  priority medium; a risk record has type risk, an opportunity record type opportunity,
  and both take the insight's priority as severity. Topic and title are the label and the
  first 50 characters of the insight's content, context and description the content.
\<close>

definition spec_concern_point :: "ExtractedInsight \<Rightarrow> TalkingPoint" where
  "spec_concern_point i =
     \<lparr>topic = ''Address concern: '' @ take 50 (content i), context = content i,
      priority = ''high'', source = Some (ExtractedInsight.source i)\<rparr>"

definition spec_opportunity_point :: "ExtractedInsight \<Rightarrow> TalkingPoint" where
  "spec_opportunity_point i =
     \<lparr>topic = ''Explore opportunity: '' @ take 50 (content i), context = content i,
      priority = ''medium'', source = Some (ExtractedInsight.source i)\<rparr>"

definition spec_insight_risk :: "string \<Rightarrow> ExtractedInsight \<Rightarrow> RiskOpportunity" where
  "spec_insight_risk ty i =
     \<lparr>RiskOpportunity.type = ty, title = take 50 (content i), description = content i,
      severity = ExtractedInsight.priority i, recommended_action = None\<rparr>"

text \<open>The interval [0,1] on Python floats.\<close>

definition in_unit_interval :: "pyfloat \<Rightarrow> bool" where
  "in_unit_interval x = (case x of Float r \<Rightarrow> 0 \<le> r \<and> r \<le> 1 | _ \<Rightarrow> False)"

text \<open>The list \<^verbatim>\<open>sources_accessed\<close> that \<^verbatim>\<open>gather\<close> builds before it calls the chain.\<close>

definition computed_sources ::
  "mcp_integrations \<Rightarrow> string list \<Rightarrow> int \<Rightarrow> bool \<Rightarrow> bool \<Rightarrow> bool \<Rightarrow> string list" where
  "computed_sources m ps days include_email include_crm include_calendar =
     (if include_email \<and> gather_email_context m ps days \<noteq> [] then [''email''] else [])
     @ (if include_calendar \<and> gather_calendar_context m ps days \<noteq> [] then [''calendar''] else [])
     @ (if include_crm \<and> truthy (dict_get (gather_crm_context m ps) ''contacts'' JNull)
        then [''crm''] else [])"

section \<open>Example runs\<close>

text \<open>
  A run without integrations, as \<^verbatim>\<open>BriefOrchestrator()\<close> is built by the API: the
  synthesis returns 12 draft action items (the tenth repeats the first in another case),
  6 talking points and 2 risks; the extraction returns 2 action items (the first repeats
  a draft), 4 concerns and 3 opportunities.
\<close>

definition no_mcp :: mcp_integrations where
  "no_mcp = \<lparr>mcp_email = None, mcp_calendar = None, mcp_crm = None\<rparr>"

definition draft0 :: json where
  "draft0 = JObj
     [(''meeting_objective'', JStr ''Renewal''),
      (''executive_summary'', JStr ''Renewal talk with Acme''),
      (''participant_profiles'', JArr [JObj [(''email'', JStr ''ann@acme.io'')]]),
      (''relationship_timeline'', JArr []),
      (''open_action_items'', JArr (map (\<lambda>d. JObj [(''description'', JStr d)])
          [''a1'', ''a2'', ''a3'', ''a4'', ''a5'', ''a6'', ''a7'', ''a8'', ''a9'', ''A1'',
           ''b1'', ''b2''])),
      (''talking_points'', JArr (map (\<lambda>t. JObj [(''topic'', JStr t)])
          [''t1'', ''t2'', ''t3'', ''t4'', ''t5'', ''t6''])),
      (''risks_opportunities'', JArr (map (\<lambda>t. JObj [(''title'', JStr t)]) [''r1'', ''r2'']))]"

definition insight0 :: "string \<Rightarrow> string \<Rightarrow> json" where
  "insight0 ty c = JObj [(''type'', JStr ty), (''content'', JStr c), (''source'', JStr ''email'')]"

definition insights0 :: json where
  "insights0 = JObj
     [(''action_items'', JArr [insight0 ''action_item'' ''a2'', insight0 ''action_item'' ''c1'']),
      (''concerns'', JArr (map (insight0 ''concern'') [''k1'', ''k2'', ''k3'', ''k4''])),
      (''opportunities'', JArr (map (insight0 ''opportunity'') [''o1'', ''o2'', ''o3'']))]"

definition world0 :: "string world" where
  "world0 =
     \<lparr>mcp = no_mcp,
      datetime_validator = (\<lambda>j. case j of JStr s \<Rightarrow> Some s | _ \<Rightarrow> None),
      float_validator = (\<lambda>j. None),
      py_str = (\<lambda>j. ''?''),
      gather_chain = Inr (JObj []),
      extract_chain = Inr insights0,
      generate_chain = Inr draft0,
      time_start = 100,
      time_end = 102,
      uuid4 = ''u-1'',
      utcnow = ''2024-05-01T10:00:00''\<rparr>"

definition ctx0 :: GatheredContext where
  "ctx0 = \<lparr>email_threads = [], calendar_events = [], crm_data = [], past_interactions = [],
            participant_profiles = [], data_quality_score = Float 0, sources_accessed = []\<rparr>"

definition ai0 :: "string \<Rightarrow> string ActionItem" where
  "ai0 d = \<lparr>ActionItem.description = d, assignee = None, due_date = None,
            status = ''open'', source = None\<rparr>"

definition tp0 :: "string \<Rightarrow> TalkingPoint" where
  "tp0 t = \<lparr>topic = t, context = [], priority = ''medium'', source = None\<rparr>"

definition ro0 :: "string \<Rightarrow> RiskOpportunity" where
  "ro0 t = \<lparr>RiskOpportunity.type = ''risk'', title = t, description = [],
            severity = ''medium'', recommended_action = None\<rparr>"

definition ins0 :: "string \<Rightarrow> string \<Rightarrow> ExtractedInsight" where
  "ins0 ty c =
     \<lparr>ExtractedInsight.type = ty, content = c, source = ''email'', source_date = None,
      participants = [], priority = ''medium'', status = ''open'', confidence = float_0_8\<rparr>"

definition brief0 :: "string Brief" where
  "brief0 =
     \<lparr>id = ''u-1'',
      meeting_id = ''m1'',
      title = ''Brief: Renewal'',
      meeting_objective = Some ''Renewal'',
      executive_summary = ''Renewal talk with Acme'',
      participant_profiles =
        [\<lparr>email = ''ann@acme.io'', name = None, ParticipantProfile.title = None,
          company = None, linkedin_url = None, recent_interactions = [],
          ParticipantProfile.key_topics = [], sentiment = None\<rparr>],
      relationship_timeline = [],
      open_action_items =
        map ai0 [''a1'', ''a2'', ''a3'', ''a4'', ''a5'', ''a6'', ''a7'', ''a8'', ''a9'', ''b1''],
      talking_points =
        map tp0 [''t1'', ''t2'', ''t3'', ''t4'', ''t5'', ''t6'']
        @ map (\<lambda>c. concern_talking_point (ins0 ''concern'' c)) [''k1'', ''k2''],
      risks_opportunities =
        map ro0 [''r1'', ''r2'']
        @ map (\<lambda>c. concern_risk (ins0 ''concern'' c)) [''k1'', ''k2'', ''k3'', ''k4''],
      email_context = None,
      crm_context = None,
      previous_meetings_summary = None,
      generated_at = ''2024-05-01T10:00:00''\<rparr>"

text \<open>
  Integrations for the gathering examples: the email search answers for Ann and raises
  for everybody else, the calendar raises.
\<close>

definition thread0 :: jdict where
  "thread0 = [(''subject'', JStr ''Renewal''), (''body'', JStr ''Hi Ann'')]"

definition search_ann :: "string \<Rightarrow> int \<Rightarrow> error + jdict list" where
  "search_ann query days =
     (if query = ''from:ann@acme.io OR to:ann@acme.io'' then Inr [thread0]
      else Inl (ExternalError ''timeout''))"

definition calendar_down :: "int \<Rightarrow> error + jdict list" where
  "calendar_down days = Inl (ExternalError ''calendar down'')"

definition mcp1 :: mcp_integrations where
  "mcp1 = \<lparr>mcp_email = Some \<lparr>enabled = True, client = search_ann\<rparr>,
            mcp_calendar = Some \<lparr>enabled = True, client = calendar_down\<rparr>,
            mcp_crm = None\<rparr>"

text \<open>
  Draft action items and insights for the merge example. The second draft repeats the
  key of the first and has a number as assignee: the merge skips it before it is ever
  validated.
\<close>

definition items1 :: "jdict list" where
  "items1 =
     [[(''description'', JStr ''Send proposal''), (''assignee'', JStr ''ann''),
       (''due_date'', JStr ''2024-06-01''), (''status'', JStr ''in_progress''),
       (''source'', JStr ''email'')],
      [(''description'', JStr ''SEND PROPOSAL''), (''assignee'', JInt 7)],
      [(''description'', JStr ''Follow up''), (''source'', JNull)]]"

definition insights1 :: "ExtractedInsight list" where
  "insights1 =
     [ins0 ''action_item'' ''follow up'',
      (ins0 ''action_item'' ''Book room'')
        \<lparr>ExtractedInsight.source := ''meeting'', participants := [''bob'', ''cy''],
         ExtractedInsight.status := ''in_progress''\<rparr>]"

definition merged1 :: "string ActionItem list" where
  "merged1 =
     [\<lparr>ActionItem.description = ''Send proposal'', assignee = Some ''ann'',
       due_date = Some ''2024-06-01'', status = ''in_progress'', source = Some ''email''\<rparr>,
      \<lparr>ActionItem.description = ''Follow up'', assignee = None, due_date = None,
       status = ''open'', source = None\<rparr>,
      \<lparr>ActionItem.description = ''Book room'', assignee = Some ''bob'', due_date = None,
       status = ''in_progress'', source = Some ''meeting''\<rparr>]"

text \<open>Draft talking points and draft risks with fields that differ from the defaults.\<close>

definition points1 :: "jdict list" where
  "points1 =
     [[(''topic'', JStr ''Pricing''), (''context'', JStr ''New tiers''),
       (''priority'', JStr ''low''), (''source'', JStr ''crm'')],
      [(''topic'', JStr ''Roadmap''), (''priority'', JStr ''high'')],
      [(''topic'', JStr ''Support''), (''context'', JStr ''Open tickets'')],
      [(''topic'', JStr ''Renewal'')]]"

definition insights2 :: InsightExtractionResult where
  "insights2 =
     \<lparr>action_items = [], commitments = [], decisions = [],
      concerns = map (ins0 ''concern'') [''k1'', ''k2'', ''k3'', ''k4'', ''k5''],
      opportunities = map (ins0 ''opportunity'') [''o1'', ''o2'', ''o3''],
      key_topics = [], sentiment_summary = ''neutral'', relationship_health = ''healthy''\<rparr>"

definition enhanced1 :: "TalkingPoint list" where
  "enhanced1 =
     [\<lparr>topic = ''Pricing'', context = ''New tiers'', priority = ''low'', source = Some ''crm''\<rparr>,
      \<lparr>topic = ''Roadmap'', context = [], priority = ''high'', source = None\<rparr>,
      \<lparr>topic = ''Support'', context = ''Open tickets'', priority = ''medium'', source = None\<rparr>,
      \<lparr>topic = ''Renewal'', context = [], priority = ''medium'', source = None\<rparr>,
      \<lparr>topic = ''Address concern: k1'', context = ''k1'', priority = ''high'',
       source = Some ''email''\<rparr>,
      \<lparr>topic = ''Address concern: k2'', context = ''k2'', priority = ''high'',
       source = Some ''email''\<rparr>,
      \<lparr>topic = ''Address concern: k3'', context = ''k3'', priority = ''high'',
       source = Some ''email''\<rparr>,
      \<lparr>topic = ''Explore opportunity: o1'', context = ''o1'', priority = ''medium'',
       source = Some ''email''\<rparr>]"

definition risks1 :: "jdict list" where
  "risks1 =
     [[(''type'', JStr ''opportunity''), (''title'', JStr ''Upsell''),
       (''description'', JStr ''Second team''), (''severity'', JStr ''high''),
       (''recommended_action'', JStr ''Offer a trial'')],
      [(''title'', JStr ''Churn''), (''recommended_action'', JNull)]]"

definition merged_risks1 :: "RiskOpportunity list" where
  "merged_risks1 =
     [\<lparr>RiskOpportunity.type = ''opportunity'', title = ''Upsell'', description = ''Second team'',
       severity = ''high'', recommended_action = Some ''Offer a trial''\<rparr>,
      \<lparr>RiskOpportunity.type = ''risk'', title = ''Churn'', description = [],
       severity = ''medium'', recommended_action = None\<rparr>,
      \<lparr>RiskOpportunity.type = ''risk'', title = ''k1'', description = ''k1'',
       severity = ''high'', recommended_action = None\<rparr>,
      \<lparr>RiskOpportunity.type = ''risk'', title = ''k2'', description = ''k2'',
       severity = ''medium'', recommended_action = None\<rparr>,
      \<lparr>RiskOpportunity.type = ''risk'', title = ''k3'', description = ''k3'',
       severity = ''medium'', recommended_action = None\<rparr>,
      \<lparr>RiskOpportunity.type = ''opportunity'', title = ''o1'', description = ''o1'',
       severity = ''low'', recommended_action = None\<rparr>]"

section \<open>Lemmas about the model\<close>

subsection \<open>Errors and validators\<close>

lemma bind_err_Inr: "bind_err r f = Inr y \<longleftrightarrow> (\<exists>v. r = Inr v \<and> f v = Inr y)"
  by (cases r) (simp_all add: bind_err_def)

lemma attr_Inr: "attr x = Inr m \<longleftrightarrow> x = Model m"
  by (cases x) simp_all

lemma validate_str_Inr: "validate_str j = Inr s \<Longrightarrow> j = JStr s"
  by (cases j) auto



lemma is_text_valid:
  "is_text d k \<Longrightarrow> validate_str (dict_get d k (JStr dflt)) = Inr (text_field d k dflt)"
  by (auto simp: is_text_def dict_get_def text_field_def split: option.splits json.splits)

lemma is_opt_text_valid:
  "is_opt_text d k \<Longrightarrow> validate_opt_str (dict_get d k JNull) = Inr (opt_text_field d k)"
  by (auto simp: is_opt_text_def dict_get_def opt_text_field_def
      split: option.splits json.splits)

subsection \<open>The action-item loops\<close>

lemma draft_action_item_key:
  "draft_action_item dt item = Inr a \<Longrightarrow>
   prefix_key (dict_get item ''description'' (JStr '''')) = Inr (action_key a)"
  by (auto simp: draft_action_item_def action_key_def dedup_key_def
      split: sum.splits dest!: validate_str_Inr)

lemma insight_action_item_spec: "insight_action_item i = spec_insight_item i"
  by (cases "participants i") (simp_all add: insight_action_item_def spec_insight_item_def)

lemma merge_insight_items_fold:
  "merge_insight_items ins items seen =
     fst (fold (spec_insert action_key) (map spec_insight_item ins) (items, seen))"
proof (induction ins arbitrary: items seen)
  case Nil
  then show ?case by simp
next
  case (Cons i ins)
  have k: "action_key (spec_insight_item i :: 'a ActionItem) = lower (take 50 (content i))"
    by (simp add: action_key_def dedup_key_def spec_insight_item_def)
  show ?case
    by (simp add: Cons.IH k spec_insert_def insight_action_item_spec Let_def)
qed

lemma validate_opt_datetime_unfold:
  "validate_opt_datetime dt j =
     (if j = JNull then Inr None
      else case dt j of None \<Rightarrow> Inl ValidationError | Some d \<Rightarrow> Inr (Some d))"
  by (cases j) simp_all

lemma well_formed_action_valid:
  assumes "well_formed_action dt d"
  shows "draft_action_item dt d = Inr (spec_draft_action dt d)"
proof -
  have due: "validate_opt_datetime dt (dict_get d ''due_date'' JNull) =
      Inr (case map_of d ''due_date'' of
             None \<Rightarrow> None | Some JNull \<Rightarrow> None | Some j \<Rightarrow> dt j)"
  proof (cases "map_of d ''due_date''")
    case None
    then show ?thesis by (simp add: dict_get_def)
  next
    case (Some j)
    with assms have "j \<noteq> JNull \<longrightarrow> dt j \<noteq> None"
      by (cases j) (simp_all add: well_formed_action_def)
    with Some show ?thesis
      by (cases j) (auto simp: dict_get_def validate_opt_datetime_unfold)
  qed
  from assms show ?thesis
    by (simp add: well_formed_action_def draft_action_item_def spec_draft_action_def
        is_text_valid is_opt_text_valid due)
qed

lemma draft_key_valid:
  "is_text d ''description'' \<Longrightarrow>
   prefix_key (dict_get d ''description'' (JStr [])) = Inr (draft_key d)"
  by (auto simp: is_text_def dict_get_def text_field_def draft_key_def dedup_key_def
      split: option.splits json.splits)

lemma action_key_spec_draft: "action_key (spec_draft_action dt d) = draft_key d"
  by (simp add: action_key_def spec_draft_action_def draft_key_def)

lemma merge_brief_items_spec:
  assumes "\<forall>item \<in> set bs. is_text item ''description''"
    and "\<forall>pre item post. bs = pre @ item # post
           \<and> draft_key item \<notin> seen \<union> draft_key ` set pre \<longrightarrow> well_formed_action dt item"
  shows "merge_brief_items dt bs items seen =
           Inr (fold (spec_insert action_key) (map (spec_draft_action dt) bs) (items, seen))"
  using assms
proof (induction bs arbitrary: items seen)
  case Nil
  then show ?case by simp
next
  case (Cons x xs)
  have k: "prefix_key (dict_get x ''description'' (JStr [])) = Inr (draft_key x)"
    using Cons.prems(1) by (simp add: draft_key_valid)
  have t: "\<forall>item \<in> set xs. is_text item ''description''"
    using Cons.prems(1) by simp
  show ?case
  proof (cases "draft_key x \<in> seen")
    case True
    have "\<forall>pre item post. xs = pre @ item # post
           \<and> draft_key item \<notin> seen \<union> draft_key ` set pre \<longrightarrow> well_formed_action dt item"
    proof (intro allI impI)
      fix pre item post
      assume a: "xs = pre @ item # post \<and> draft_key item \<notin> seen \<union> draft_key ` set pre"
      then have "x # xs = (x # pre) @ item # post
          \<and> draft_key item \<notin> seen \<union> draft_key ` set (x # pre)"
        using True by auto
      with Cons.prems(2) show "well_formed_action dt item" by blast
    qed
    from Cons.IH [OF t this] True k show ?thesis
      by (simp add: spec_insert_def action_key_spec_draft)
  next
    case False
    have "x # xs = [] @ x # xs \<and> draft_key x \<notin> seen \<union> draft_key ` set []"
      using False by simp
    with Cons.prems(2) have "well_formed_action dt x" by blast
    then have v: "draft_action_item dt x = Inr (spec_draft_action dt x)"
      by (rule well_formed_action_valid)
    have "\<forall>pre item post. xs = pre @ item # post
           \<and> draft_key item \<notin> insert (draft_key x) seen \<union> draft_key ` set pre
           \<longrightarrow> well_formed_action dt item"
    proof (intro allI impI)
      fix pre item post
      assume a: "xs = pre @ item # post
          \<and> draft_key item \<notin> insert (draft_key x) seen \<union> draft_key ` set pre"
      then have "x # xs = (x # pre) @ item # post
          \<and> draft_key item \<notin> seen \<union> draft_key ` set (x # pre)"
        by auto
      with Cons.prems(2) show "well_formed_action dt item" by blast
    qed
    from Cons.IH [OF t this] False k v show ?thesis
      by (simp add: spec_insert_def action_key_spec_draft)
  qed
qed

text \<open>The invariant of both loops: the keys of the items are distinct and all seen.\<close>

lemma merge_brief_items_distinct:
  "merge_brief_items dt bs items seen = Inr (items', seen') \<Longrightarrow>
   distinct (map action_key items) \<Longrightarrow> action_key ` set items \<subseteq> seen \<Longrightarrow>
   distinct (map action_key items') \<and> action_key ` set items' \<subseteq> seen'"
proof (induction bs arbitrary: items seen)
  case Nil
  then show ?case by simp
next
  case (Cons x xs)
  from Cons.prems(1) obtain key
    where k: "prefix_key (dict_get x ''description'' (JStr [])) = Inr key"
    by (auto split: sum.splits)
  show ?case
  proof (cases "key \<in> seen")
    case True
    with Cons.prems k have "merge_brief_items dt xs items seen = Inr (items', seen')"
      by simp
    from Cons.IH [OF this Cons.prems(2) Cons.prems(3)] show ?thesis .
  next
    case False
    with Cons.prems(1) k obtain a where a: "draft_action_item dt x = Inr a"
      and r: "merge_brief_items dt xs (items @ [a]) (insert key seen) = Inr (items', seen')"
      by (auto split: sum.splits)
    from draft_action_item_key [OF a] k have ka: "action_key a = key" by simp
    have d: "distinct (map action_key (items @ [a]))"
      using Cons.prems(2) Cons.prems(3) False ka by auto
    have s: "action_key ` set (items @ [a]) \<subseteq> insert key seen"
      using Cons.prems(3) ka by auto
    from Cons.IH [OF r d s] show ?thesis .
  qed
qed

lemma merge_insight_items_distinct:
  "distinct (map action_key items) \<Longrightarrow> action_key ` set items \<subseteq> seen \<Longrightarrow>
   distinct (map action_key (merge_insight_items ins items seen))"
proof (induction ins arbitrary: items seen)
  case Nil
  then show ?case by simp
next
  case (Cons i ins)
  have k: "action_key (insight_action_item i :: 'a ActionItem) = lower (take 50 (content i))"
    by (simp add: action_key_def dedup_key_def insight_action_item_def)
  show ?case
  proof (cases "lower (take 50 (content i)) \<in> seen")
    case True
    with Cons.IH [OF Cons.prems] show ?thesis by (simp add: Let_def)
  next
    case False
    have d: "distinct (map action_key (items @ [insight_action_item i :: 'a ActionItem]))"
      using Cons.prems False k by auto
    have s: "action_key ` set (items @ [insight_action_item i :: 'a ActionItem])
        \<subseteq> insert (lower (take 50 (content i))) seen"
      using Cons.prems(2) k by auto
    from Cons.IH [OF d s] False show ?thesis by (simp add: Let_def)
  qed
qed

lemma merge_action_items_distinct:
  assumes "merge_action_items dt bs ins = Inr xs"
  shows "distinct (map action_key xs)"
proof -
  from assms obtain items seen where b: "merge_brief_items dt bs [] {} = Inr (items, seen)"
    and x: "xs = take 10 (merge_insight_items ins items seen)"
    by (auto simp: merge_action_items_def split: sum.splits)
  from merge_brief_items_distinct [OF b] have "distinct (map action_key items)"
    and "action_key ` set items \<subseteq> seen" by simp_all
  then have "distinct (map action_key (merge_insight_items ins items seen))"
    by (rule merge_insight_items_distinct)
  then have "distinct (take 10 (map action_key (merge_insight_items ins items seen)))"
    by (rule distinct_take)
  with x show ?thesis by (simp add: take_map)
qed

lemma merge_action_items_cap: "merge_action_items dt bs is = Inr xs \<Longrightarrow> length xs \<le> 10"
  by (auto simp: merge_action_items_def split: sum.splits)

subsection \<open>The talking-point loops\<close>

lemma append_points_valid:
  "list_all2 (\<lambda>p t. draft_talking_point p = Inr t) points drafts \<Longrightarrow>
   append_points points enhanced = Inr (enhanced @ drafts)"
  by (induction points drafts arbitrary: enhanced rule: list_all2_induct) simp_all

lemma append_concern_points_eq:
  "append_concern_points cs enhanced = enhanced @ map concern_talking_point cs"
  by (induction cs arbitrary: enhanced) simp_all

lemma append_opportunity_points_eq:
  "append_opportunity_points os enhanced = enhanced @ map opportunity_talking_point os"
  by (induction os arbitrary: enhanced) simp_all

lemma enhance_valid:
  "list_all2 (\<lambda>p t. draft_talking_point p = Inr t) points drafts \<Longrightarrow>
   enhance_talking_points points insights =
     Inr (take 8 (drafts @ map concern_talking_point (take 3 (concerns insights))
                         @ map opportunity_talking_point (take 2 (opportunities insights))))"
  by (simp add: enhance_talking_points_def append_points_valid
      append_concern_points_eq append_opportunity_points_eq)

lemma well_formed_point_valid:
  "well_formed_point d \<Longrightarrow> draft_talking_point d = Inr (spec_draft_point d)"
  by (simp add: well_formed_point_def draft_talking_point_def spec_draft_point_def
      is_text_valid is_opt_text_valid)

lemma well_formed_points_valid:
  "\<forall>p \<in> set points. well_formed_point p \<Longrightarrow>
   list_all2 (\<lambda>p t. draft_talking_point p = Inr t) points (map spec_draft_point points)"
  by (induction points) (simp_all add: well_formed_point_valid)

lemma concern_point_spec: "concern_talking_point = spec_concern_point"
  by (rule ext) (simp add: concern_talking_point_def spec_concern_point_def)

lemma opportunity_point_spec: "opportunity_talking_point = spec_opportunity_point"
  by (rule ext) (simp add: opportunity_talking_point_def spec_opportunity_point_def)

lemma enhance_talking_points_cap: "enhance_talking_points ps ins = Inr xs \<Longrightarrow> length xs \<le> 8"
  by (auto simp: enhance_talking_points_def split: sum.splits)

subsection \<open>The risk and opportunity loops\<close>

lemma append_existing_valid:
  "list_all2 (\<lambda>i r. draft_risk_opportunity i = Inr r) existing drafts \<Longrightarrow>
   append_existing existing items = Inr (items @ drafts)"
  by (induction existing drafts arbitrary: items rule: list_all2_induct) simp_all

lemma append_existing_Inr:
  "append_existing existing items = Inr r \<Longrightarrow>
   \<exists>drafts. list_all2 (\<lambda>i r. draft_risk_opportunity i = Inr r) existing drafts
            \<and> r = items @ drafts"
proof (induction existing arbitrary: items)
  case Nil
  then show ?case by simp
next
  case (Cons i existing)
  then obtain t where t: "draft_risk_opportunity i = Inr t"
    and r: "append_existing existing (items @ [t]) = Inr r"
    by (auto split: sum.splits)
  from Cons.IH [OF r] obtain drafts
    where "list_all2 (\<lambda>i r. draft_risk_opportunity i = Inr r) existing drafts"
      and "r = (items @ [t]) @ drafts"
    by blast
  with t have "list_all2 (\<lambda>i r. draft_risk_opportunity i = Inr r) (i # existing) (t # drafts)
      \<and> r = items @ (t # drafts)"
    by simp
  then show ?case by blast
qed

lemma append_concern_risks_eq:
  "append_concern_risks cs items = items @ map concern_risk cs"
  by (induction cs arbitrary: items) simp_all

lemma append_opportunity_records_eq:
  "append_opportunity_records os items = items @ map opportunity_record os"
  by (induction os arbitrary: items) simp_all

lemma merge_risks_valid:
  "list_all2 (\<lambda>i r. draft_risk_opportunity i = Inr r) existing drafts \<Longrightarrow>
   merge_risks_opportunities existing cs opps =
     Inr (take 6 (drafts @ map concern_risk cs @ map opportunity_record opps))"
  by (simp add: merge_risks_opportunities_def append_existing_valid
      append_concern_risks_eq append_opportunity_records_eq)

lemma merge_risks_Inr:
  "merge_risks_opportunities existing cs opps = Inr r \<Longrightarrow>
   \<exists>drafts. list_all2 (\<lambda>i r. draft_risk_opportunity i = Inr r) existing drafts \<and>
      r = take 6 (drafts @ map concern_risk cs @ map opportunity_record opps)"
  by (auto simp: merge_risks_opportunities_def append_concern_risks_eq
      append_opportunity_records_eq split: sum.splits dest!: append_existing_Inr)

lemma well_formed_risk_valid:
  "well_formed_risk d \<Longrightarrow> draft_risk_opportunity d = Inr (spec_draft_risk d)"
  by (simp add: well_formed_risk_def draft_risk_opportunity_def spec_draft_risk_def
      is_text_valid is_opt_text_valid)

lemma well_formed_risks_valid:
  "\<forall>d \<in> set existing. well_formed_risk d \<Longrightarrow>
   list_all2 (\<lambda>i r. draft_risk_opportunity i = Inr r) existing (map spec_draft_risk existing)"
  by (induction existing) (simp_all add: well_formed_risk_valid)

lemma concern_risk_spec: "concern_risk = spec_insight_risk ''risk''"
  by (rule ext) (simp add: concern_risk_def spec_insight_risk_def)

lemma opportunity_record_spec: "opportunity_record = spec_insight_risk ''opportunity''"
  by (rule ext) (simp add: opportunity_record_def spec_insight_risk_def)

lemma merge_risks_opportunities_cap:
  "merge_risks_opportunities ex cs os = Inr xs \<Longrightarrow> length xs \<le> 6"
  by (auto simp: merge_risks_opportunities_def split: sum.splits)

subsection \<open>The pipeline\<close>

lemma brief_from_context_Inr:
  assumes "brief_from_context w mid mt ctx = Inr b"
  shows "\<exists>notes ins gen.
     map_err meeting_note (calendar_events ctx) = Inr notes \<and>
     extract_insights (float_validator w) (email_threads ctx) notes (extract_chain w)
       = Inr (Model ins) \<and>
     generate (generate_chain w) = Inr (Model gen) \<and>
     merge_action_items (datetime_validator w) (GeneratedBrief.open_action_items gen)
       (action_items ins) = Inr (open_action_items b) \<and>
     enhance_talking_points (GeneratedBrief.talking_points gen) ins = Inr (talking_points b) \<and>
     merge_risks_opportunities (GeneratedBrief.risks_opportunities gen) (concerns ins)
       (opportunities ins) = Inr (risks_opportunities b)"
  using assms unfolding brief_from_context_def Let_def bind_err_Inr attr_Inr
  by auto

lemma generate_brief_Inr:
  "generate_brief w mid mt ps ie ic ical days = Inr b \<longleftrightarrow>
   (\<exists>ctx. gather (mcp w) (float_validator w) (gather_chain w) ps days ie ic ical = Inr ctx \<and>
          brief_from_context w mid mt ctx = Inr b)"
  by (simp add: generate_brief_def bind_err_Inr)

subsection \<open>Gathering\<close>

lemma gather_unfold:
  "gather m fl chain ps days ie ic ical =
     (case chain of
        Inl e \<Rightarrow> Inl e
      | Inr (JObj r) \<Rightarrow>
          validate_GatheredContext fl
            ((''sources_accessed'', JArr (map JStr (computed_sources m ps days ie ic ical))) # r)
      | Inr _ \<Rightarrow> Inl AttributeError)"
  by (simp add: gather_def computed_sources_def Let_def dict_get_def
      split: sum.splits json.splits)


lemma validate_score:
  "validate_GatheredContext fl ((''sources_accessed'', j) # r) = Inr c \<Longrightarrow>
   optional r ''data_quality_score'' (Float 0) (validate_float fl) = Inr (data_quality_score c)"
  by (auto simp: validate_GatheredContext_def optional_def bind_err_Inr split: option.splits)



subsection \<open>The example runs, evaluated\<close>

lemma from_context0: "brief_from_context world0 ''m1'' ''Renewal'' ctx0 = Inr brief0"
  by code_simp

lemma run0:
  "generate_brief world0 ''m1'' ''Renewal'' [''ann@acme.io''] True True True 30 = Inr brief0"
  by code_simp

section \<open>The claims\<close>

subsection \<open>C1: the caps of the merged lists\<close>

text \<open>
  Claim C1. Whatever draft and insights the pipeline works on, a Brief that
  \<^verbatim>\<open>generate_brief\<close> returns has at most 10 action items, at most 8 talking points and at
  most 6 risks and opportunities.
\<close>

theorem brief_lists_within_caps:
  assumes "generate_brief w mid mt ps ie ic ical days = Inr b"
  shows "length (open_action_items b) \<le> 10 \<and> length (talking_points b) \<le> 8
         \<and> length (risks_opportunities b) \<le> 6"
proof -
  from assms obtain ctx where "brief_from_context w mid mt ctx = Inr b"
    by (auto simp: generate_brief_Inr)
  from brief_from_context_Inr [OF this] show ?thesis
    by (metis merge_action_items_cap enhance_talking_points_cap merge_risks_opportunities_cap)
qed

text \<open>
  The example run returns a Brief, and all three of its lists were cut: 11 distinct action
  items, 11 talking points and 9 risks and opportunities were collected.
\<close>

theorem brief_lists_within_caps_witness:
  "generate_brief world0 ''m1'' ''Renewal'' [''ann@acme.io''] True True True 30 = Inr brief0
   \<and> (length (open_action_items brief0) \<le> 10 \<and> length (talking_points brief0) \<le> 8
      \<and> length (risks_opportunities brief0) \<le> 6)
   \<and> length (open_action_items brief0) = 10 \<and> length (talking_points brief0) = 8
   \<and> length (risks_opportunities brief0) = 6"
proof (intro conjI)
  show "generate_brief world0 ''m1'' ''Renewal'' [''ann@acme.io''] True True True 30 = Inr brief0"
    by (rule run0)
  show "length (open_action_items brief0) \<le> 10"
    using brief_lists_within_caps [OF run0] by blast
  show "length (talking_points brief0) \<le> 8"
    using brief_lists_within_caps [OF run0] by blast
  show "length (risks_opportunities brief0) \<le> 6"
    using brief_lists_within_caps [OF run0] by blast
qed (simp_all add: brief0_def)

subsection \<open>C2: the action-item merge\<close>

text \<open>
  Claim C2. Let every draft item hold a text (or nothing) under \<^verbatim>\<open>description\<close>, and let
  every draft item whose key no earlier draft item has be well formed. Then
  \<^verbatim>\<open>_merge_action_items\<close> returns what the reference algorithm returns on the draft records
  as the specification reads them: the draft items are walked in order and each one with
  an unseen key (the case-folded first 50 characters of the description) is inserted and
  its key recorded, then the insights are walked in order and each one with an unseen key
  adds an item with the insight's content as description, its first participant, if any,
  as assignee, and its status and source; the first 10 accumulated items are kept, so
  drafts come before insight items.
\<close>

theorem merge_action_items_refines_reference:
  assumes "\<forall>item \<in> set brief_items. is_text item ''description''"
    and "\<forall>pre item post. brief_items = pre @ item # post
           \<and> draft_key item \<notin> draft_key ` set pre \<longrightarrow> well_formed_action dt item"
  shows "merge_action_items dt brief_items insight_items =
           Inr (spec_merge_action_items (map (spec_draft_action dt) brief_items) insight_items)"
proof -
  let ?drafts = "map (spec_draft_action dt) brief_items"
  obtain items seen where f: "fold (spec_insert action_key) ?drafts ([], {}) = (items, seen)"
    by (cases "fold (spec_insert action_key) ?drafts ([], {})")
  from assms(2) have "\<forall>pre item post. brief_items = pre @ item # post
           \<and> draft_key item \<notin> {} \<union> draft_key ` set pre \<longrightarrow> well_formed_action dt item"
    by simp
  from merge_brief_items_spec [OF assms(1) this, of "[]"] f
  have "merge_brief_items dt brief_items [] {} = Inr (items, seen)"
    by simp
  then show ?thesis
    by (simp add: merge_action_items_def spec_merge_action_items_def
        merge_insight_items_fold f)
qed

text \<open>
  Three draft items and two insights. The first draft sets every field; the second
  repeats its key in capitals and is not well formed; the first insight repeats the key
  of the third draft. Three items remain, the drafts first, each with the fields of its
  record.
\<close>

theorem merge_action_items_refines_reference_witness:
  "merge_action_items (datetime_validator world0) items1 insights1 =
     Inr (spec_merge_action_items
            (map (spec_draft_action (datetime_validator world0)) items1) insights1)
   \<and> spec_merge_action_items
        (map (spec_draft_action (datetime_validator world0)) items1) insights1 = merged1
   \<and> \<not> well_formed_action (datetime_validator world0) (items1 ! 1)"
proof -
  let ?dt = "datetime_validator world0"
  let ?a = "[(''description'', JStr ''Send proposal''), (''assignee'', JStr ''ann''),
       (''due_date'', JStr ''2024-06-01''), (''status'', JStr ''in_progress''),
       (''source'', JStr ''email'')]"
  let ?b = "[(''description'', JStr ''SEND PROPOSAL''), (''assignee'', JInt 7)]"
  let ?c = "[(''description'', JStr ''Follow up''), (''source'', JNull)]"
  have i: "items1 = [?a, ?b, ?c]"
    by (simp add: items1_def)
  have t: "\<forall>item \<in> set items1. is_text item ''description''"
    by (simp add: i is_text_def)
  have ka: "draft_key ?b = draft_key ?a"
    by code_simp
  have wa: "well_formed_action ?dt ?a"
    by (simp add: well_formed_action_def is_text_def is_opt_text_def world0_def)
  have wc: "well_formed_action ?dt ?c"
    by (simp add: well_formed_action_def is_text_def is_opt_text_def)
  have w: "\<forall>pre item post. items1 = pre @ item # post
           \<and> draft_key item \<notin> draft_key ` set pre \<longrightarrow> well_formed_action ?dt item"
  proof (intro allI impI)
    fix pre item post
    assume a: "items1 = pre @ item # post \<and> draft_key item \<notin> draft_key ` set pre"
    then have "(pre = [] \<and> item = ?a) \<or> (pre = [?a] \<and> item = ?b)
        \<or> (pre = [?a, ?b] \<and> item = ?c)"
      unfolding i by (auto simp: Cons_eq_append_conv)
    with a ka wa wc show "well_formed_action ?dt item"
      by auto
  qed
  have r: "spec_merge_action_items (map (spec_draft_action ?dt) items1) insights1 = merged1"
    by code_simp
  have n: "\<not> well_formed_action ?dt (items1 ! 1)"
    by (simp add: i well_formed_action_def is_opt_text_def)
  from merge_action_items_refines_reference [OF t w, of insights1] r n show ?thesis
    by blast
qed

subsection \<open>C3: keys of the talking points\<close>

text \<open>
  Claim C3, as amended. The talking-point merge removes no duplicates. When the draft
  points validate, the dedup keys of the final list are exactly the keys of the first 8
  candidates (the draft points, then the points of the first 3 concerns, then those of the
  first 2 opportunities); so no two entries share a key if no two candidates do.
\<close>

theorem talking_point_keys_are_candidate_keys:
  assumes "list_all2 (\<lambda>p t. draft_talking_point p = Inr t) points drafts"
  shows "\<exists>tps. enhance_talking_points points insights = Inr tps
           \<and> map tp_key tps =
               take 8 (map tp_key
                 (drafts @ map concern_talking_point (take 3 (concerns insights))
                         @ map opportunity_talking_point (take 2 (opportunities insights))))
           \<and> (distinct (map tp_key
                 (drafts @ map concern_talking_point (take 3 (concerns insights))
                         @ map opportunity_talking_point (take 2 (opportunities insights))))
                \<longrightarrow> distinct (map tp_key tps))"
proof -
  let ?cands = "drafts @ map concern_talking_point (take 3 (concerns insights))
                       @ map opportunity_talking_point (take 2 (opportunities insights))"
  have e: "enhance_talking_points points insights = Inr (take 8 ?cands)"
    by (rule enhance_valid [OF assms])
  have k: "map tp_key (take 8 ?cands) = take 8 (map tp_key ?cands)"
    by (simp only: take_map)
  have "distinct (map tp_key ?cands) \<longrightarrow> distinct (map tp_key (take 8 ?cands))"
    unfolding k by (blast intro: distinct_take)
  with e k show ?thesis by blast
qed

text \<open>
  Counterexample to C3 as stated: two draft talking points whose topics differ in case
  only are both in the final list, with the same key.
\<close>

theorem talking_points_share_key_counterexample:
  "enhance_talking_points
      [[(''topic'', JStr ''Pricing'')], [(''topic'', JStr ''pricing'')]]
      \<lparr>action_items = [], commitments = [], decisions = [], concerns = [],
       opportunities = [], key_topics = [], sentiment_summary = ''neutral'',
       relationship_health = ''healthy''\<rparr>
     = Inr [tp0 ''Pricing'', tp0 ''pricing'']
   \<and> tp_key (tp0 ''Pricing'') = tp_key (tp0 ''pricing'')
   \<and> \<not> distinct (map tp_key [tp0 ''Pricing'', tp0 ''pricing''])"
  by code_simp

text \<open>With distinct topics in the draft and one concern, the keys come out distinct.\<close>

theorem talking_point_keys_are_candidate_keys_witness:
  "list_all2 (\<lambda>p t. draft_talking_point p = Inr t)
     [[(''topic'', JStr ''Pricing'')], [(''topic'', JStr ''Roadmap'')]]
     [tp0 ''Pricing'', tp0 ''Roadmap'']
   \<and> (\<exists>tps. enhance_talking_points
               [[(''topic'', JStr ''Pricing'')], [(''topic'', JStr ''Roadmap'')]]
               \<lparr>action_items = [], commitments = [], decisions = [],
                concerns = [ins0 ''concern'' ''Late delivery''],
                opportunities = [], key_topics = [], sentiment_summary = ''neutral'',
                relationship_health = ''healthy''\<rparr> = Inr tps
            \<and> length tps = 3 \<and> distinct (map tp_key tps))"
proof -
  let ?ins = "\<lparr>action_items = [], commitments = [], decisions = [],
                concerns = [ins0 ''concern'' ''Late delivery''],
                opportunities = [], key_topics = [], sentiment_summary = ''neutral'',
                relationship_health = ''healthy''\<rparr>"
  have v: "list_all2 (\<lambda>p t. draft_talking_point p = Inr t)
     [[(''topic'', JStr ''Pricing'')], [(''topic'', JStr ''Roadmap'')]]
     [tp0 ''Pricing'', tp0 ''Roadmap'']"
    by (simp add: draft_talking_point_def dict_get_def tp0_def)
  have d: "distinct (map tp_key ([tp0 ''Pricing'', tp0 ''Roadmap'']
             @ map concern_talking_point (take 3 (concerns ?ins))
             @ map opportunity_talking_point (take 2 (opportunities ?ins))))"
    by code_simp
  from talking_point_keys_are_candidate_keys [OF v, of ?ins] obtain tps where
    e: "enhance_talking_points
          [[(''topic'', JStr ''Pricing'')], [(''topic'', JStr ''Roadmap'')]] ?ins = Inr tps"
    and m: "map tp_key tps = take 8 (map tp_key ([tp0 ''Pricing'', tp0 ''Roadmap'']
             @ map concern_talking_point (take 3 (concerns ?ins))
             @ map opportunity_talking_point (take 2 (opportunities ?ins))))"
    and i: "distinct (map tp_key ([tp0 ''Pricing'', tp0 ''Roadmap'']
             @ map concern_talking_point (take 3 (concerns ?ins))
             @ map opportunity_talking_point (take 2 (opportunities ?ins))))
            \<longrightarrow> distinct (map tp_key tps)"
    by blast
  from m have "length (map tp_key tps) = 3" by simp
  then have "length tps = 3" by simp
  with v e i d show ?thesis by blast
qed

subsection \<open>C4: the order of the talking points\<close>

text \<open>
  Claim C4. When the draft points are well formed, \<^verbatim>\<open>_enhance_talking_points\<close> returns the
  first 8 entries of: all draft points in their order, each with the fields of its
  record, then one point per concern for the first 3 concerns, in their order and with
  priority high, then one point per opportunity for the first 2 opportunities, in their
  order and with priority medium.
\<close>

theorem enhance_talking_points_order:
  assumes "\<forall>p \<in> set points. well_formed_point p"
  shows "enhance_talking_points points insights =
           Inr (take 8 (map spec_draft_point points
                        @ map spec_concern_point (take 3 (concerns insights))
                        @ map spec_opportunity_point (take 2 (opportunities insights))))
         \<and> (\<forall>c. TalkingPoint.priority (spec_concern_point c) = ''high'')
         \<and> (\<forall>opp. TalkingPoint.priority (spec_opportunity_point opp) = ''medium'')"
  using enhance_valid [OF well_formed_points_valid [OF assms], of insights]
  by (simp add: concern_point_spec opportunity_point_spec spec_concern_point_def
      spec_opportunity_point_def)

text \<open>
  Four draft points, of which three set fields away from the defaults, five concerns and
  three opportunities: the result holds the four drafts with their fields, the first
  three concerns and the first opportunity.
\<close>

theorem enhance_talking_points_order_witness:
  "enhance_talking_points points1 insights2 = Inr enhanced1
   \<and> length enhanced1 = 8
   \<and> map TalkingPoint.priority enhanced1 =
       [''low'', ''high'', ''medium'', ''medium'', ''high'', ''high'', ''high'', ''medium'']"
proof -
  have w: "\<forall>p \<in> set points1. well_formed_point p"
    by (simp add: points1_def well_formed_point_def is_text_def is_opt_text_def)
  have e: "take 8 (map spec_draft_point points1
                   @ map spec_concern_point (take 3 (concerns insights2))
                   @ map spec_opportunity_point (take 2 (opportunities insights2)))
           = enhanced1"
    by code_simp
  have p: "length enhanced1 = 8 \<and> map TalkingPoint.priority enhanced1 =
       [''low'', ''high'', ''medium'', ''medium'', ''high'', ''high'', ''high'', ''medium'']"
    by (simp add: enhanced1_def)
  from enhance_talking_points_order [OF w, of insights2] e p show ?thesis
    by simp
qed

subsection \<open>C5: the order of the risks and opportunities\<close>

text \<open>
  Claim C5. When the draft entries are well formed, \<^verbatim>\<open>_merge_risks_opportunities\<close> returns
  the first 6 entries of: the draft entries in their order, each with the fields of its
  record, then one record per concern, of type risk and with the concern's priority as
  severity, then one record per opportunity, of type opportunity and with the
  opportunity's priority as severity, both in the order of extraction.
\<close>

theorem merge_risks_opportunities_order:
  assumes "\<forall>d \<in> set existing. well_formed_risk d"
  shows "merge_risks_opportunities existing cs opps =
           Inr (take 6 (map spec_draft_risk existing
                        @ map (spec_insight_risk ''risk'') cs
                        @ map (spec_insight_risk ''opportunity'') opps))
         \<and> (\<forall>ty i. RiskOpportunity.type (spec_insight_risk ty i) = ty
                \<and> severity (spec_insight_risk ty i) = ExtractedInsight.priority i)"
  using merge_risks_valid [OF well_formed_risks_valid [OF assms], of cs opps]
  by (simp add: concern_risk_spec opportunity_record_spec spec_insight_risk_def)

text \<open>
  Two draft entries, the first an opportunity of high severity with an action, three
  concerns and two opportunities: the drafts keep their fields and the last opportunity
  is cut.
\<close>

theorem merge_risks_opportunities_order_witness:
  "merge_risks_opportunities risks1
     [(ins0 ''concern'' ''k1'')\<lparr>priority := ''high''\<rparr>, ins0 ''concern'' ''k2'',
      ins0 ''concern'' ''k3'']
     [(ins0 ''opportunity'' ''o1'')\<lparr>priority := ''low''\<rparr>, ins0 ''opportunity'' ''o2'']
     = Inr merged_risks1
   \<and> length merged_risks1 = 6
   \<and> map RiskOpportunity.type merged_risks1 =
       [''opportunity'', ''risk'', ''risk'', ''risk'', ''risk'', ''opportunity'']
   \<and> map severity merged_risks1 = [''high'', ''medium'', ''high'', ''medium'', ''medium'', ''low'']"
proof -
  let ?cs = "[(ins0 ''concern'' ''k1'')\<lparr>priority := ''high''\<rparr>, ins0 ''concern'' ''k2'',
      ins0 ''concern'' ''k3'']"
  let ?os = "[(ins0 ''opportunity'' ''o1'')\<lparr>priority := ''low''\<rparr>, ins0 ''opportunity'' ''o2'']"
  have w: "\<forall>d \<in> set risks1. well_formed_risk d"
    by (simp add: risks1_def well_formed_risk_def is_text_def is_opt_text_def)
  have e: "take 6 (map spec_draft_risk risks1 @ map (spec_insight_risk ''risk'') ?cs
                   @ map (spec_insight_risk ''opportunity'') ?os) = merged_risks1"
    by code_simp
  have p: "length merged_risks1 = 6
     \<and> map RiskOpportunity.type merged_risks1 =
       [''opportunity'', ''risk'', ''risk'', ''risk'', ''risk'', ''opportunity'']
     \<and> map severity merged_risks1 = [''high'', ''medium'', ''high'', ''medium'', ''medium'', ''low'']"
    by (simp add: merged_risks1_def)
  from merge_risks_opportunities_order [OF w, of ?cs ?os] e p show ?thesis
    by simp
qed

subsection \<open>C10: no deduplication of risks and opportunities\<close>

text \<open>
  Claim C10. \<^verbatim>\<open>_merge_risks_opportunities\<close> drops nothing but what exceeds the cap: the
  result has min 6 n entries for n candidates. Two concerns with the same content give
  two equal entries, and a draft entry equal to the record of a concern stays beside it.
  The action items are the list whose keys are unique: no two items that
  \<^verbatim>\<open>_merge_action_items\<close> returns have the same dedup key.
\<close>

theorem risks_opportunities_not_deduplicated:
  "(merge_risks_opportunities existing cs opps = Inr r \<longrightarrow>
      length r = min 6 (length existing + length cs + length opps))
   \<and> merge_risks_opportunities [] [c, c] [] = Inr [concern_risk c, concern_risk c]
   \<and> (draft_risk_opportunity item = Inr (concern_risk c) \<longrightarrow>
        merge_risks_opportunities [item] [c] [] = Inr [concern_risk c, concern_risk c])
   \<and> (merge_action_items dt brief_items insight_items = Inr items \<longrightarrow>
        distinct (map action_key items))"
proof (intro conjI impI)
  assume "merge_risks_opportunities existing cs opps = Inr r"
  from merge_risks_Inr [OF this] obtain drafts where
    "list_all2 (\<lambda>i r. draft_risk_opportunity i = Inr r) existing drafts"
    "r = take 6 (drafts @ map concern_risk cs @ map opportunity_record opps)" by blast
  then show "length r = min 6 (length existing + length cs + length opps)"
    by (auto dest: list_all2_lengthD)
next
  show "merge_risks_opportunities [] [c, c] [] = Inr [concern_risk c, concern_risk c]"
    using merge_risks_valid [of "[]" "[]" "[c, c]" "[]"] by simp
next
  assume "draft_risk_opportunity item = Inr (concern_risk c)"
  then show "merge_risks_opportunities [item] [c] [] = Inr [concern_risk c, concern_risk c]"
    using merge_risks_valid [of "[item]" "[concern_risk c]" "[c]" "[]"] by simp
next
  assume "merge_action_items dt brief_items insight_items = Inr items"
  then show "distinct (map action_key items)"
    by (rule merge_action_items_distinct)
qed

text \<open>
  A draft risk with the title and description of a concern that is extracted twice: the
  final list holds the same entry three times. The action items of the merge example,
  where two drafts and an insight repeat a key, come out with three distinct keys.
\<close>

theorem risks_opportunities_not_deduplicated_witness:
  "draft_risk_opportunity
      [(''title'', JStr ''Budget cut''), (''description'', JStr ''Budget cut'')]
     = Inr (concern_risk (ins0 ''concern'' ''Budget cut''))
   \<and> merge_risks_opportunities
       [[(''title'', JStr ''Budget cut''), (''description'', JStr ''Budget cut'')]]
       [ins0 ''concern'' ''Budget cut'', ins0 ''concern'' ''Budget cut''] []
     = Inr (replicate 3 (concern_risk (ins0 ''concern'' ''Budget cut'')))
   \<and> length (replicate 3 (concern_risk (ins0 ''concern'' ''Budget cut'')))
     = min 6 (length [[(''title'', JStr ''Budget cut''), (''description'', JStr ''Budget cut'')]]
              + length [ins0 ''concern'' ''Budget cut'', ins0 ''concern'' ''Budget cut'']
              + length ([] :: ExtractedInsight list))
   \<and> merge_risks_opportunities
       [[(''title'', JStr ''Budget cut''), (''description'', JStr ''Budget cut'')]]
       [ins0 ''concern'' ''Budget cut''] []
     = Inr (replicate 2 (concern_risk (ins0 ''concern'' ''Budget cut'')))
   \<and> merge_action_items (datetime_validator world0) items1 insights1 = Inr merged1
   \<and> distinct (map action_key merged1)"
proof -
  let ?item = "[(''title'', JStr ''Budget cut''), (''description'', JStr ''Budget cut'')]"
  let ?c = "ins0 ''concern'' ''Budget cut''"
  have d: "draft_risk_opportunity ?item = Inr (concern_risk ?c)"
    by code_simp
  have m: "merge_risks_opportunities [?item] [?c, ?c] [] = Inr (replicate 3 (concern_risk ?c))"
    by code_simp
  have a: "merge_action_items (datetime_validator world0) items1 insights1 = Inr merged1"
    by code_simp
  note t = risks_opportunities_not_deduplicated
    [where existing = "[?item]" and cs = "[?c, ?c]" and opps = "[]"
       and r = "replicate 3 (concern_risk ?c)" and item = ?item and c = ?c
       and dt = "datetime_validator world0" and brief_items = items1
       and insight_items = insights1 and items = merged1]
  from t m have l: "length (replicate 3 (concern_risk ?c))
     = min 6 (length [?item] + length [?c, ?c] + length ([] :: ExtractedInsight list))"
    by blast
  from t d have "merge_risks_opportunities [?item] [?c] [] = Inr [concern_risk ?c, concern_risk ?c]"
    by blast
  then have "merge_risks_opportunities [?item] [?c] [] = Inr (replicate 2 (concern_risk ?c))"
    by (simp add: numeral_2_eq_2)
  moreover from t a have "distinct (map action_key merged1)"
    by blast
  ultimately show ?thesis using d m l a by blast
qed

subsection \<open>C6: duration and sources of a run\<close>

text \<open>
  Claim C6 asks the returned Brief to carry the duration of the run and the sources the
  gathering accessed. The record \<open>Brief\<close> has no field for either, and the Brief that
  \<^verbatim>\<open>generate_brief\<close> returns depends on neither: it is the same for every pair of clock
  readings, and the steps after the gathering return the same Brief for every value of
  \<^verbatim>\<open>sources_accessed\<close>.
\<close>

theorem brief_ignores_clock_and_sources:
  "generate_brief (w\<lparr>time_start := s, time_end := e\<rparr>) mid mt ps ie ic ical days
     = generate_brief w mid mt ps ie ic ical days
   \<and> brief_from_context w mid mt (ctx\<lparr>sources_accessed := srcs\<rparr>)
     = brief_from_context w mid mt ctx"
proof -
  have "brief_from_context (w\<lparr>time_start := s, time_end := e\<rparr>) mid mt
          = brief_from_context w mid mt"
    by (rule ext) (simp add: brief_from_context_def)
  then show ?thesis
    by (simp add: generate_brief_def) (simp add: brief_from_context_def)
qed

text \<open>
  The example run again, now taking 2.5 seconds and with the email source accessed: the
  Brief is the one of the run that took 2 seconds and accessed nothing.
\<close>

theorem brief_ignores_clock_and_sources_witness:
  "generate_brief (world0\<lparr>time_start := 100, time_end := 1025 / 10\<rparr>)
      ''m1'' ''Renewal'' [''ann@acme.io''] True True True 30 = Inr brief0
   \<and> brief_from_context world0 ''m1'' ''Renewal'' (ctx0\<lparr>sources_accessed := [''email'']\<rparr>)
     = Inr brief0"
  using brief_ignores_clock_and_sources
    [where w = world0 and s = 100 and e = "1025 / 10" and mid = "''m1''" and mt = "''Renewal''"
       and ps = "[''ann@acme.io'']" and ie = True and ic = True and ical = True and days = 30
       and ctx = ctx0 and srcs = "[''email'']"]
    run0 from_context0
  by simp

subsection \<open>C7: failures of the extraction and of the synthesis\<close>

text \<open>
  Claim C7. Once the context is gathered and the meeting notes are built, an exception
  of the insight extraction is the outcome of \<^verbatim>\<open>generate_brief\<close>, and so is an exception of
  the brief synthesis when the extraction raised none. A Brief is returned only when
  both steps returned a validated model, and then its three lists are the merges of that
  draft with those insights: no empty insight set is put in the place of a failed
  extraction.
\<close>

theorem generation_failure_propagates:
  "(gather (mcp w) (float_validator w) (gather_chain w) ps days ie ic ical = Inr ctx \<and>
    map_err meeting_note (calendar_events ctx) = Inr mns \<and>
    extract_insights (float_validator w) (email_threads ctx) mns (extract_chain w) = Inl e
      \<longrightarrow> generate_brief w mid mt ps ie ic ical days = Inl e)
 \<and> (gather (mcp w) (float_validator w) (gather_chain w) ps days ie ic ical = Inr ctx \<and>
    map_err meeting_note (calendar_events ctx) = Inr mns \<and>
    extract_insights (float_validator w) (email_threads ctx) mns (extract_chain w) = Inr x \<and>
    generate (generate_chain w) = Inl e
      \<longrightarrow> generate_brief w mid mt ps ie ic ical days = Inl e)
 \<and> (generate_brief w mid mt ps ie ic ical days = Inr b \<longrightarrow>
      (\<exists>ctx mns ins gen.
         gather (mcp w) (float_validator w) (gather_chain w) ps days ie ic ical = Inr ctx \<and>
         map_err meeting_note (calendar_events ctx) = Inr mns \<and>
         extract_insights (float_validator w) (email_threads ctx) mns (extract_chain w)
           = Inr (Model ins) \<and>
         generate (generate_chain w) = Inr (Model gen) \<and>
         merge_action_items (datetime_validator w) (GeneratedBrief.open_action_items gen)
           (action_items ins) = Inr (open_action_items b) \<and>
         enhance_talking_points (GeneratedBrief.talking_points gen) ins
           = Inr (talking_points b) \<and>
         merge_risks_opportunities (GeneratedBrief.risks_opportunities gen) (concerns ins)
           (opportunities ins) = Inr (risks_opportunities b)))"
proof (intro conjI impI)
  assume "gather (mcp w) (float_validator w) (gather_chain w) ps days ie ic ical = Inr ctx \<and>
    map_err meeting_note (calendar_events ctx) = Inr mns \<and>
    extract_insights (float_validator w) (email_threads ctx) mns (extract_chain w) = Inl e"
  then show "generate_brief w mid mt ps ie ic ical days = Inl e"
    by (simp add: generate_brief_def brief_from_context_def bind_err_def)
next
  assume "gather (mcp w) (float_validator w) (gather_chain w) ps days ie ic ical = Inr ctx \<and>
    map_err meeting_note (calendar_events ctx) = Inr mns \<and>
    extract_insights (float_validator w) (email_threads ctx) mns (extract_chain w) = Inr x \<and>
    generate (generate_chain w) = Inl e"
  then show "generate_brief w mid mt ps ie ic ical days = Inl e"
    by (simp add: generate_brief_def brief_from_context_def bind_err_def)
next
  assume "generate_brief w mid mt ps ie ic ical days = Inr b"
  then obtain ctx
    where g: "gather (mcp w) (float_validator w) (gather_chain w) ps days ie ic ical = Inr ctx"
      and b: "brief_from_context w mid mt ctx = Inr b"
    by (auto simp: generate_brief_Inr)
  from brief_from_context_Inr [OF b] g
  show "\<exists>ctx mns ins gen.
         gather (mcp w) (float_validator w) (gather_chain w) ps days ie ic ical = Inr ctx \<and>
         map_err meeting_note (calendar_events ctx) = Inr mns \<and>
         extract_insights (float_validator w) (email_threads ctx) mns (extract_chain w)
           = Inr (Model ins) \<and>
         generate (generate_chain w) = Inr (Model gen) \<and>
         merge_action_items (datetime_validator w) (GeneratedBrief.open_action_items gen)
           (action_items ins) = Inr (open_action_items b) \<and>
         enhance_talking_points (GeneratedBrief.talking_points gen) ins
           = Inr (talking_points b) \<and>
         merge_risks_opportunities (GeneratedBrief.risks_opportunities gen) (concerns ins)
           (opportunities ins) = Inr (risks_opportunities b)"
    by blast
qed

text \<open>
  Three runs: the extraction output has a string where the list of concerns belongs and
  fails the validation; the synthesis chain raises on output that is not JSON; both
  outputs are well formed and the Brief holds the merges.
\<close>

theorem generation_failure_propagates_witness:
  "generate_brief (world0\<lparr>extract_chain := Inr (JObj [(''concerns'', JStr ''none'')])\<rparr>)
      ''m1'' ''Renewal'' [''ann@acme.io''] True True True 30 = Inl ValidationError
   \<and> generate_brief (world0\<lparr>generate_chain := Inl (ExternalError ''OutputParserException'')\<rparr>)
      ''m1'' ''Renewal'' [''ann@acme.io''] True True True 30
       = Inl (ExternalError ''OutputParserException'')
   \<and> (\<exists>ctx mns ins gen.
         gather (mcp world0) (float_validator world0) (gather_chain world0) [''ann@acme.io''] 30
           True True True = Inr ctx \<and>
         map_err meeting_note (calendar_events ctx) = Inr mns \<and>
         extract_insights (float_validator world0) (email_threads ctx) mns
           (extract_chain world0) = Inr (Model ins) \<and>
         generate (generate_chain world0) = Inr (Model gen) \<and>
         merge_action_items (datetime_validator world0) (GeneratedBrief.open_action_items gen)
           (action_items ins) = Inr (open_action_items brief0) \<and>
         enhance_talking_points (GeneratedBrief.talking_points gen) ins
           = Inr (talking_points brief0) \<and>
         merge_risks_opportunities (GeneratedBrief.risks_opportunities gen) (concerns ins)
           (opportunities ins) = Inr (risks_opportunities brief0))"
proof (intro conjI)
  let ?w1 = "world0\<lparr>extract_chain := Inr (JObj [(''concerns'', JStr ''none'')])\<rparr>"
  have g: "gather (mcp ?w1) (float_validator ?w1) (gather_chain ?w1) [''ann@acme.io''] 30
      True True True = Inr ctx0"
    by code_simp
  have n: "map_err meeting_note (calendar_events ctx0) = Inr []"
    by code_simp
  have x: "extract_insights (float_validator ?w1) (email_threads ctx0) [] (extract_chain ?w1)
      = Inl ValidationError"
    by code_simp
  from generation_failure_propagates
    [where w = ?w1 and ctx = ctx0 and mns = "[]" and e = ValidationError
       and ps = "[''ann@acme.io'']" and days = 30 and ie = True and ic = True and ical = True
       and mid = "''m1''" and mt = "''Renewal''"]
    g n x
  show "generate_brief ?w1 ''m1'' ''Renewal'' [''ann@acme.io''] True True True 30
      = Inl ValidationError"
    by blast
next
  let ?w2 = "world0\<lparr>generate_chain := Inl (ExternalError ''OutputParserException'')\<rparr>"
  have g: "gather (mcp ?w2) (float_validator ?w2) (gather_chain ?w2) [''ann@acme.io''] 30
      True True True = Inr ctx0"
    by code_simp
  have n: "map_err meeting_note (calendar_events ctx0) = Inr []"
    by code_simp
  obtain x where x: "extract_insights (float_validator ?w2) (email_threads ctx0) []
      (extract_chain ?w2) = Inr x"
    by (simp add: world0_def ctx0_def extract_insights_def insights0_def bind_err_Inr)
       (simp add: validate_InsightExtractionResult_def optional_def insight0_def
          required_def bind_err_def)
  have s: "generate (generate_chain ?w2) = Inl (ExternalError ''OutputParserException'')"
    by (simp add: generate_def)
  from generation_failure_propagates
    [where w = ?w2 and ctx = ctx0 and mns = "[]" and x = x
       and e = "ExternalError ''OutputParserException''"
       and ps = "[''ann@acme.io'']" and days = 30 and ie = True and ic = True and ical = True
       and mid = "''m1''" and mt = "''Renewal''"]
    g n x s
  show "generate_brief ?w2 ''m1'' ''Renewal'' [''ann@acme.io''] True True True 30
      = Inl (ExternalError ''OutputParserException'')"
    by blast
next
  from generation_failure_propagates
    [where w = world0 and b = brief0
       and ps = "[''ann@acme.io'']" and days = 30 and ie = True and ic = True and ical = True
       and mid = "''m1''" and mt = "''Renewal''"]
    run0
  show "\<exists>ctx mns ins gen.
         gather (mcp world0) (float_validator world0) (gather_chain world0) [''ann@acme.io''] 30
           True True True = Inr ctx \<and>
         map_err meeting_note (calendar_events ctx) = Inr mns \<and>
         extract_insights (float_validator world0) (email_threads ctx) mns
           (extract_chain world0) = Inr (Model ins) \<and>
         generate (generate_chain world0) = Inr (Model gen) \<and>
         merge_action_items (datetime_validator world0) (GeneratedBrief.open_action_items gen)
           (action_items ins) = Inr (open_action_items brief0) \<and>
         enhance_talking_points (GeneratedBrief.talking_points gen) ins
           = Inr (talking_points brief0) \<and>
         merge_risks_opportunities (GeneratedBrief.risks_opportunities gen) (concerns ins)
           (opportunities ins) = Inr (risks_opportunities brief0)"
    by blast
qed

subsection \<open>C8: fetch errors while gathering\<close>




subsection \<open>C9: the data quality score\<close>

text \<open>
  Claim C9, as amended. \<^verbatim>\<open>gather\<close> neither computes nor bounds the score: the
  \<^verbatim>\<open>data_quality_score\<close> of the returned context is the float the chain returned under
  that key, 0.0 when the key is absent and, for a value that is not a float, such as an
  int, what the float validator converts it to. It lies in [0,1] only if that float
  does, and two runs whose chain returned the same value have the same score, whatever
  else differs.
\<close>

theorem data_quality_score_is_generated:
  "(gather m fl chain ps days ie ic ical = Inr ctx \<longrightarrow>
      (\<exists>r. chain = Inr (JObj r) \<and>
           (case map_of r ''data_quality_score'' of
              None \<Rightarrow> data_quality_score ctx = Float 0
            | Some (JFloat q) \<Rightarrow> data_quality_score ctx = q
            | Some v \<Rightarrow> fl v = Some (data_quality_score ctx))))
   \<and> (gather m fl chain ps days ie ic ical = Inr ctx \<and>
      gather m' fl chain ps' days' ie' ic' ical' = Inr ctx' \<longrightarrow>
      data_quality_score ctx' = data_quality_score ctx)"
proof -
  have *: "\<exists>r. chain = Inr (JObj r) \<and>
           optional r ''data_quality_score'' (Float 0) (validate_float fl)
             = Inr (data_quality_score c)"
    if "gather m fl chain ps days ie ic ical = Inr c" for m ps days ie ic ical c
    using that by (auto simp: gather_unfold split: sum.splits json.splits dest: validate_score)
  show ?thesis
  proof (intro conjI impI)
    assume "gather m fl chain ps days ie ic ical = Inr ctx"
    from * [OF this] obtain r where r: "chain = Inr (JObj r)"
      and o: "optional r ''data_quality_score'' (Float 0) (validate_float fl)
                = Inr (data_quality_score ctx)"
      by blast
    from o have "case map_of r ''data_quality_score'' of
              None \<Rightarrow> data_quality_score ctx = Float 0
            | Some (JFloat q) \<Rightarrow> data_quality_score ctx = q
            | Some v \<Rightarrow> fl v = Some (data_quality_score ctx)"
      by (auto simp: optional_def split: option.splits json.splits)
    with r show "\<exists>r. chain = Inr (JObj r) \<and>
           (case map_of r ''data_quality_score'' of
              None \<Rightarrow> data_quality_score ctx = Float 0
            | Some (JFloat q) \<Rightarrow> data_quality_score ctx = q
            | Some v \<Rightarrow> fl v = Some (data_quality_score ctx))"
      by blast
  next
    assume a: "gather m fl chain ps days ie ic ical = Inr ctx \<and>
      gather m' fl chain ps' days' ie' ic' ical' = Inr ctx'"
    from * [of m ps days ie ic ical ctx] * [of m' ps' days' ie' ic' ical' ctx'] a
    show "data_quality_score ctx' = data_quality_score ctx" by auto
  qed
qed

text \<open>
  Counterexample to C9 as stated. The chain returns the score 1.5 and the context carries
  1.5; a second run with the same arguments, in which the chain returns 0.25, carries
  0.25.
\<close>

theorem data_quality_score_counterexample:
  "gather no_mcp (\<lambda>j. None) (Inr (JObj [(''data_quality_score'', JFloat (Float (3 / 2)))]))
      [''ann@acme.io''] 30 True True True = Inr (ctx0\<lparr>data_quality_score := Float (3 / 2)\<rparr>)
   \<and> \<not> in_unit_interval (data_quality_score (ctx0\<lparr>data_quality_score := Float (3 / 2)\<rparr>))
   \<and> gather no_mcp (\<lambda>j. None) (Inr (JObj [(''data_quality_score'', JFloat (Float (1 / 4)))]))
      [''ann@acme.io''] 30 True True True = Inr (ctx0\<lparr>data_quality_score := Float (1 / 4)\<rparr>)
   \<and> data_quality_score (ctx0\<lparr>data_quality_score := Float (3 / 2)\<rparr>)
       \<noteq> data_quality_score (ctx0\<lparr>data_quality_score := Float (1 / 4)\<rparr>)"
  by (simp add: gather_def no_mcp_def gather_email_context_def gather_calendar_context_def
      gather_crm_context_def crm_dict_def dict_get_def validate_GatheredContext_def
      bind_err_def optional_def ctx0_def in_unit_interval_def)

text \<open>
  The chain returns the score 0.75: a run without integrations and a run with the email
  source accessed both carry 0.75. When it returns the int 1, the score is the float the
  validator converts 1 to.
\<close>

theorem data_quality_score_is_generated_witness:
  "gather no_mcp (\<lambda>j. None) (Inr (JObj [(''data_quality_score'', JFloat (Float (3 / 4)))]))
      [''ann@acme.io''] 30 True True True = Inr (ctx0\<lparr>data_quality_score := Float (3 / 4)\<rparr>)
   \<and> gather mcp1 (\<lambda>j. None) (Inr (JObj [(''data_quality_score'', JFloat (Float (3 / 4)))]))
      [''ann@acme.io''] 30 True False False
       = Inr (ctx0\<lparr>data_quality_score := Float (3 / 4), sources_accessed := [''email'']\<rparr>)
   \<and> (\<exists>r. (Inr (JObj [(''data_quality_score'', JFloat (Float (3 / 4)))]) :: error + json)
             = Inr (JObj r)
         \<and> (case map_of r ''data_quality_score'' of
              None \<Rightarrow> data_quality_score (ctx0\<lparr>data_quality_score := Float (3 / 4)\<rparr>) = Float 0
            | Some (JFloat q) \<Rightarrow>
                data_quality_score (ctx0\<lparr>data_quality_score := Float (3 / 4)\<rparr>) = q
            | Some v \<Rightarrow> (\<lambda>j. None) v
                = Some (data_quality_score (ctx0\<lparr>data_quality_score := Float (3 / 4)\<rparr>))))
   \<and> data_quality_score
        (ctx0\<lparr>data_quality_score := Float (3 / 4), sources_accessed := [''email'']\<rparr>)
       = data_quality_score (ctx0\<lparr>data_quality_score := Float (3 / 4)\<rparr>)
   \<and> gather no_mcp (\<lambda>j. if j = JInt 1 then Some (Float 1) else None)
        (Inr (JObj [(''data_quality_score'', JInt 1)]))
        [''ann@acme.io''] 30 True True True = Inr (ctx0\<lparr>data_quality_score := Float 1\<rparr>)
   \<and> (\<exists>r. (Inr (JObj [(''data_quality_score'', JInt 1)]) :: error + json) = Inr (JObj r)
         \<and> (case map_of r ''data_quality_score'' of
              None \<Rightarrow> data_quality_score (ctx0\<lparr>data_quality_score := Float 1\<rparr>) = Float 0
            | Some (JFloat q) \<Rightarrow> data_quality_score (ctx0\<lparr>data_quality_score := Float 1\<rparr>) = q
            | Some v \<Rightarrow> (\<lambda>j. if j = JInt 1 then Some (Float 1) else None) v
                = Some (data_quality_score (ctx0\<lparr>data_quality_score := Float 1\<rparr>))))"
proof -
  let ?chain = "Inr (JObj [(''data_quality_score'', JFloat (Float (3 / 4)))]) :: error + json"
  let ?c1 = "ctx0\<lparr>data_quality_score := Float (3 / 4)\<rparr>"
  let ?c2 = "ctx0\<lparr>data_quality_score := Float (3 / 4), sources_accessed := [''email'']\<rparr>"
  let ?fl3 = "\<lambda>j. if j = JInt 1 then Some (Float 1) else None"
  let ?chain3 = "Inr (JObj [(''data_quality_score'', JInt 1)]) :: error + json"
  let ?c3 = "ctx0\<lparr>data_quality_score := Float 1\<rparr>"
  have g1: "gather no_mcp (\<lambda>j. None) ?chain [''ann@acme.io''] 30 True True True = Inr ?c1"
    by (simp add: gather_def no_mcp_def gather_email_context_def gather_calendar_context_def
      gather_crm_context_def crm_dict_def dict_get_def validate_GatheredContext_def
      bind_err_def optional_def ctx0_def)
  have g2: "gather mcp1 (\<lambda>j. None) ?chain [''ann@acme.io''] 30 True False False = Inr ?c2"
    by (simp add: gather_def mcp1_def gather_email_context_def search_ann_def
      dict_get_def validate_GatheredContext_def bind_err_def optional_def ctx0_def)
  have g3: "gather no_mcp ?fl3 ?chain3 [''ann@acme.io''] 30 True True True = Inr ?c3"
    by (simp add: gather_def no_mcp_def gather_email_context_def gather_calendar_context_def
      gather_crm_context_def crm_dict_def dict_get_def validate_GatheredContext_def
      bind_err_def optional_def ctx0_def)
  note t = data_quality_score_is_generated
    [where m = no_mcp and fl = "\<lambda>j. None" and chain = ?chain and ps = "[''ann@acme.io'']"
       and days = 30 and ie = True and ic = True and ical = True and ctx = ?c1
       and m' = mcp1 and ps' = "[''ann@acme.io'']" and days' = 30 and ie' = True
       and ic' = False and ical' = False and ctx' = ?c2]
  note t3 = data_quality_score_is_generated
    [where m = no_mcp and fl = ?fl3 and chain = ?chain3 and ps = "[''ann@acme.io'']"
       and days = 30 and ie = True and ic = True and ical = True and ctx = ?c3]
  from t g1 have a: "\<exists>r. ?chain = Inr (JObj r)
         \<and> (case map_of r ''data_quality_score'' of
              None \<Rightarrow> data_quality_score ?c1 = Float 0
            | Some (JFloat q) \<Rightarrow> data_quality_score ?c1 = q
            | Some v \<Rightarrow> (\<lambda>j. None) v = Some (data_quality_score ?c1))"
    by blast
  from t g1 g2 have b: "data_quality_score ?c2 = data_quality_score ?c1"
    by blast
  from t3 g3 have c: "\<exists>r. ?chain3 = Inr (JObj r)
         \<and> (case map_of r ''data_quality_score'' of
              None \<Rightarrow> data_quality_score ?c3 = Float 0
            | Some (JFloat q) \<Rightarrow> data_quality_score ?c3 = q
            | Some v \<Rightarrow> ?fl3 v = Some (data_quality_score ?c3))"
    by blast
  from g1 g2 a b g3 c show ?thesis by blast
qed

end
